theory Spec2Isabelle
  imports Main "HOL-Library.Char_ord" "HOL-Library.List_Lexorder"
begin

section \<open>Data model (package config)\<close>

text \<open>
  \<^verbatim>\<open>type RestoreItem struct { Name, OriginalPath, TrashedAt string }\<close> and
  \<^verbatim>\<open>type RestoreMetadata struct { Items []RestoreItem }\<close>.
  Go strings are byte sequences; \<open>string\<close> is a list of 8-bit characters, ordered
  bytewise (\<open>Char_ord\<close>) and lexicographically (\<open>List_Lexorder\<close>) as Go orders strings.
\<close>

record RestoreItem =
  Name :: string
  OriginalPath :: string
  TrashedAt :: string

record RestoreMetadata =
  Items :: "RestoreItem list"

section \<open>The environment: operating system, path and JSON libraries\<close>

text \<open>
  Errors are values. The first constructors are the errors the libraries hand back;
  \<open>Errorf\<close> is \<^verbatim>\<open>fmt.Errorf\<close> with its format string and arguments
  (\<open>S\<close> a string for \<^verbatim>\<open>%s\<close>, \<open>D\<close> a number for \<^verbatim>\<open>%d\<close>, \<open>V\<close> an error for
  \<^verbatim>\<open>%v\<close> and \<^verbatim>\<open>%w\<close>).
\<close>

datatype error =
    ErrNotExist | ErrExist | ErrPermission | ErrCrossDevice | ErrNotEmpty | ErrInvalid | ErrSyntax
  | Errorf string "fmt_arg list"
and fmt_arg = S string | D nat | V error

text \<open>\<^verbatim>\<open>os.IsNotExist\<close>, applied in the sources only to what \<^verbatim>\<open>os.Stat\<close> returned.\<close>

definition os_IsNotExist :: "error \<Rightarrow> bool" where
  "os_IsNotExist err = (err = ErrNotExist)"

record FileInfo =
  IsDir :: bool
  Mode :: nat

record DirEntry =
  entry_Name :: string
  entry_IsDir :: bool

text \<open>The library calls that change the file system, with their arguments.\<close>

datatype syscall =
    Rename string string
  | Remove string
  | RemoveAll string
  | MkdirAll string nat
  | WriteFile string string nat
  | Create string
  | ReadFrom string string
  | Chmod string nat

text \<open>
  The sources call the Go standard library, which is no part of the repository: it is a
  parameter of the model. \<open>'fs\<close> is the state of the file system (and of whatever else
  the calls depend on). A call that only reads takes the state and returns a result; a
  call that writes (\<open>os_exec\<close>) returns its error, if any, with the new state.
  \<open>os_Open\<close> is \<^verbatim>\<open>os.Open\<close> for reading, \<open>ReadFrom dst src\<close> is
  \<^verbatim>\<open>destFile.ReadFrom(sourceFile)\<close> on the files opened at these paths.
  \<open>json_Unmarshal\<close> returns the error with the value the zero-initialised variable holds
  after the call.
\<close>

record 'fs env =
  os_UserHomeDir :: "'fs \<Rightarrow> error + string"
  os_Getwd :: "'fs \<Rightarrow> error + string"
  os_Stat :: "'fs \<Rightarrow> string \<Rightarrow> error + FileInfo"
  os_ReadDir :: "'fs \<Rightarrow> string \<Rightarrow> error + DirEntry list"
  os_ReadFile :: "'fs \<Rightarrow> string \<Rightarrow> error + string"
  os_Open :: "'fs \<Rightarrow> string \<Rightarrow> error option"
  os_exec :: "syscall \<Rightarrow> 'fs \<Rightarrow> error option \<times> 'fs"
  filepath_Abs :: "'fs \<Rightarrow> string \<Rightarrow> error + string"
  filepath_Join :: "string list \<Rightarrow> string"
  filepath_Dir :: "string \<Rightarrow> string"
  filepath_Base :: "string \<Rightarrow> string"
  time_Now_Format :: "'fs \<Rightarrow> string \<Rightarrow> string"
  json_MarshalIndent :: "RestoreMetadata \<Rightarrow> error + string"
  json_Unmarshal :: "string \<Rightarrow> error option \<times> RestoreMetadata"

text \<open>
  The state of a run: the file system, the writing calls made so far in order, and the
  lines printed so far (\<^verbatim>\<open>fmt.Printf\<close> to standard output, \<^verbatim>\<open>fmt.Fprintf(os.Stderr, ...)\<close>
  to standard error), each as its format string and arguments.
\<close>

datatype stream = Stdout | Stderr

record 'fs world =
  fs :: 'fs
  calls :: "syscall list"
  out :: "(stream \<times> string \<times> fmt_arg list) list"

definition sys :: "'fs env \<Rightarrow> syscall \<Rightarrow> 'fs world \<Rightarrow> error option \<times> 'fs world" where
  "sys e c w =
     (case os_exec e c (fs w) of
        (err, s') \<Rightarrow> (err, w\<lparr>fs := s', calls := calls w @ [c]\<rparr>))"

definition Printf :: "string \<Rightarrow> fmt_arg list \<Rightarrow> 'fs world \<Rightarrow> 'fs world" where
  "Printf format args w = w\<lparr>out := out w @ [(Stdout, format, args)]\<rparr>"

definition Eprintf :: "string \<Rightarrow> fmt_arg list \<Rightarrow> 'fs world \<Rightarrow> 'fs world" where
  "Eprintf format args w = w\<lparr>out := out w @ [(Stderr, format, args)]\<rparr>"

definition Println :: "string \<Rightarrow> 'fs world \<Rightarrow> 'fs world" where
  "Println text w = Printf (text @ ''\<newline>'') [] w"

definition when_verbose :: "bool \<Rightarrow> ('fs world \<Rightarrow> 'fs world) \<Rightarrow> 'fs world \<Rightarrow> 'fs world" where
  "when_verbose verbose p w = (if verbose then p w else w)"

section \<open>Package config\<close>

text \<open>The permission bits \<^verbatim>\<open>0755\<close> and \<^verbatim>\<open>0644\<close> (octal in the sources).\<close>

definition perm_0755 :: nat where
  "perm_0755 = 7 * 64 + 5 * 8 + 5"

definition perm_0644 :: nat where
  "perm_0644 = 6 * 64 + 4 * 8 + 4"

definition GetConfigDir :: "'fs env \<Rightarrow> 'fs \<Rightarrow> error + string" where
  "GetConfigDir e s =
     (case os_UserHomeDir e s of
        Inl err \<Rightarrow> Inl (Errorf ''failed to get user home directory: %w'' [V err])
      | Inr homeDir \<Rightarrow> Inr (filepath_Join e [homeDir, ''.config'', ''trash'']))"

definition CreateTrashTimestampDir :: "'fs env \<Rightarrow> 'fs world \<Rightarrow> (error + string) \<times> 'fs world" where
  "CreateTrashTimestampDir e w =
     (case GetConfigDir e (fs w) of
        Inl err \<Rightarrow> (Inl err, w)
      | Inr configDir \<Rightarrow>
          (let timestamp = time_Now_Format e (fs w) ''20060102_150405'';
               trashDir = filepath_Join e [configDir, timestamp]
           in case sys e (MkdirAll trashDir perm_0755) w of
                (Some err, w1) \<Rightarrow> (Inl (Errorf ''failed to create trash directory: %w'' [V err]), w1)
              | (None, w1) \<Rightarrow> (Inr trashDir, w1)))"

text \<open>\<^verbatim>\<open>CopyFile(src, dst)\<close>. The deferred \<^verbatim>\<open>Close\<close> calls return nothing the code reads.\<close>

definition CopyFile :: "'fs env \<Rightarrow> string \<Rightarrow> string \<Rightarrow> 'fs world \<Rightarrow> error option \<times> 'fs world" where
  "CopyFile e src dst w =
     (case os_Open e (fs w) src of
        Some err \<Rightarrow> (Some err, w)
      | None \<Rightarrow>
         (case sys e (Create dst) w of
            (Some err, w1) \<Rightarrow> (Some err, w1)
          | (None, w1) \<Rightarrow>
             (case sys e (ReadFrom dst src) w1 of
                (Some err, w2) \<Rightarrow> (Some err, w2)
              | (None, w2) \<Rightarrow>
                 (case os_Stat e (fs w2) src of
                    Inl err \<Rightarrow> (Some err, w2)
                  | Inr sourceInfo \<Rightarrow> sys e (Chmod dst (Mode sourceInfo)) w2))))"

text \<open>
  \<^verbatim>\<open>CopyDir(src, dst)\<close> calls itself on every sub-directory that \<^verbatim>\<open>os.ReadDir\<close> lists.
  Nothing in the code bounds the depth, so the model takes fuel: the first argument
  bounds the nesting of the calls, and \<open>None\<close> says that the bound was reached.
  \<open>CopyDir_entries\<close> is the loop over the entries.
\<close>

fun CopyDir :: "'fs env \<Rightarrow> nat \<Rightarrow> string \<Rightarrow> string \<Rightarrow> 'fs world \<Rightarrow> (error option \<times> 'fs world) option"
and CopyDir_entries ::
  "'fs env \<Rightarrow> nat \<Rightarrow> string \<Rightarrow> string \<Rightarrow> DirEntry list \<Rightarrow> 'fs world \<Rightarrow> (error option \<times> 'fs world) option"
where
  "CopyDir e 0 src dst w = None"
| "CopyDir e (Suc fuel) src dst w =
     (case os_Stat e (fs w) src of
        Inl err \<Rightarrow> Some (Some err, w)
      | Inr sourceInfo \<Rightarrow>
         (case sys e (MkdirAll dst (Mode sourceInfo)) w of
            (Some err, w1) \<Rightarrow> Some (Some err, w1)
          | (None, w1) \<Rightarrow>
             (case os_ReadDir e (fs w1) src of
                Inl err \<Rightarrow> Some (Some err, w1)
              | Inr entries \<Rightarrow> CopyDir_entries e fuel src dst entries w1)))"
| "CopyDir_entries e fuel src dst [] w = Some (None, w)"
| "CopyDir_entries e fuel src dst (entry # entries) w =
     (let srcPath = filepath_Join e [src, entry_Name entry];
          dstPath = filepath_Join e [dst, entry_Name entry]
      in case (if entry_IsDir entry then CopyDir e fuel srcPath dstPath w
               else Some (CopyFile e srcPath dstPath w)) of
           None \<Rightarrow> None
         | Some (Some err, w1) \<Rightarrow> Some (Some err, w1)
         | Some (None, w1) \<Rightarrow> CopyDir_entries e fuel src dst entries w1)"

text \<open>
  \<^verbatim>\<open>MoveToTrash(sourcePath, trashDir)\<close> returns the base name or an error. \<open>None\<close> only
  when the fallback copy of a directory runs out of fuel.
\<close>

definition MoveToTrash ::
  "'fs env \<Rightarrow> nat \<Rightarrow> string \<Rightarrow> string \<Rightarrow> 'fs world \<Rightarrow> ((error + string) \<times> 'fs world) option" where
  "MoveToTrash e fuel sourcePath trashDir w =
     (case filepath_Abs e (fs w) sourcePath of
        Inl err \<Rightarrow> Some (Inl (Errorf ''failed to get absolute path: %w'' [V err]), w)
      | Inr absPath \<Rightarrow>
         (case os_Stat e (fs w) absPath of
            Inl err \<Rightarrow>
              if os_IsNotExist err
              then Some (Inl (Errorf ''path does not exist: %s'' [S absPath]), w)
              else Some (Inl (Errorf ''failed to stat source: %w'' [V err]), w)
          | Inr sourceInfo \<Rightarrow>
             (let baseName = filepath_Base e absPath;
                  destPath = filepath_Join e [trashDir, baseName]
              in case sys e (Rename absPath destPath) w of
                   (None, w1) \<Rightarrow> Some (Inr baseName, w1)
                 | (Some _, w1) \<Rightarrow>
                    if IsDir sourceInfo
                    then (case CopyDir e fuel absPath destPath w1 of
                            None \<Rightarrow> None
                          | Some (Some err, w2) \<Rightarrow>
                              Some (Inl (Errorf ''failed to copy directory %s to trash: %w''
                                           [S absPath, V err]), w2)
                          | Some (None, w2) \<Rightarrow>
                             (case sys e (RemoveAll absPath) w2 of
                                (Some err, w3) \<Rightarrow>
                                  Some (Inl (Errorf ''failed to remove original directory %s: %w''
                                               [S absPath, V err]), w3)
                              | (None, w3) \<Rightarrow> Some (Inr baseName, w3)))
                    else (case CopyFile e absPath destPath w1 of
                            (Some err, w2) \<Rightarrow>
                              Some (Inl (Errorf ''failed to copy file %s to trash: %w''
                                           [S absPath, V err]), w2)
                          | (None, w2) \<Rightarrow>
                             (case sys e (Remove absPath) w2 of
                                (Some err, w3) \<Rightarrow>
                                  Some (Inl (Errorf ''failed to remove original file %s: %w''
                                               [S absPath, V err]), w3)
                              | (None, w3) \<Rightarrow> Some (Inr baseName, w3))))))"

definition SaveRestoreMetadata ::
  "'fs env \<Rightarrow> string \<Rightarrow> RestoreMetadata \<Rightarrow> 'fs world \<Rightarrow> error option \<times> 'fs world" where
  "SaveRestoreMetadata e trashDir metadata w =
     (let restoreFilePath = filepath_Join e [trashDir, ''.restore'']
      in case json_MarshalIndent e metadata of
           Inl err \<Rightarrow> (Some (Errorf ''failed to marshal metadata: %w'' [V err]), w)
         | Inr jsonData \<Rightarrow>
            (case sys e (WriteFile restoreFilePath jsonData perm_0644) w of
               (Some err, w1) \<Rightarrow> (Some (Errorf ''failed to write .restore file: %w'' [V err]), w1)
             | (None, w1) \<Rightarrow> (None, w1)))"

section \<open>The trash command (rootCmd, package cmd)\<close>

text \<open>
  The variables the loop over the paths updates: \<^verbatim>\<open>successCount\<close>, \<^verbatim>\<open>failedPaths\<close> and
  \<^verbatim>\<open>metadata.Items\<close>.
\<close>

record trash_acc =
  successCount :: nat
  failedPaths :: "string list"
  metadata_Items :: "RestoreItem list"

text \<open>The layout \<^verbatim>\<open>time.RFC3339\<close>.\<close>

definition time_RFC3339 :: string where
  "time_RFC3339 = ''2006-01-02T15:04:05Z07:00''"

text \<open>The body of the loop of lines 58-84, for one path.\<close>

definition rootCmd_step ::
  "'fs env \<Rightarrow> nat \<Rightarrow> bool \<Rightarrow> string \<Rightarrow> string \<Rightarrow> trash_acc \<times> 'fs world \<Rightarrow> (trash_acc \<times> 'fs world) option" where
  "rootCmd_step e fuel verbose trashDir path st =
     (case st of (acc, w) \<Rightarrow>
       (let absPath = (case os_Getwd e (fs w) of
                         Inr _ \<Rightarrow> (case filepath_Abs e (fs w) path of Inr a \<Rightarrow> a | Inl _ \<Rightarrow> [])
                       | Inl _ \<Rightarrow> path)
        in case MoveToTrash e fuel path trashDir w of
             None \<Rightarrow> None
           | Some (Inl err, w1) \<Rightarrow>
               Some (acc\<lparr>failedPaths := failedPaths acc @ [path]\<rparr>,
                     Eprintf ''Error: %v\<newline>'' [V err] w1)
           | Some (Inr baseName, w1) \<Rightarrow>
               Some (acc\<lparr>successCount := successCount acc + 1,
                          metadata_Items := metadata_Items acc @
                            [\<lparr>Name = baseName, OriginalPath = absPath,
                              TrashedAt = time_Now_Format e (fs w1) time_RFC3339\<rparr>]\<rparr>,
                     when_verbose verbose (Printf ''Moved to trash: %s\<newline>'' [S path]) w1)))"

fun rootCmd_loop ::
  "'fs env \<Rightarrow> nat \<Rightarrow> bool \<Rightarrow> string \<Rightarrow> string list \<Rightarrow> trash_acc \<times> 'fs world \<Rightarrow> (trash_acc \<times> 'fs world) option" where
  "rootCmd_loop e fuel verbose trashDir [] st = Some st"
| "rootCmd_loop e fuel verbose trashDir (path # args) st =
     (case rootCmd_step e fuel verbose trashDir path st of
        None \<Rightarrow> None
      | Some st' \<Rightarrow> rootCmd_loop e fuel verbose trashDir args st')"

text \<open>
  The \<^verbatim>\<open>Run\<close> function of \<^verbatim>\<open>rootCmd\<close>: the exit code of the process (\<^verbatim>\<open>os.Exit(1)\<close>, or 0
  when the function returns) with the final state.
\<close>

definition rootCmd :: "'fs env \<Rightarrow> nat \<Rightarrow> bool \<Rightarrow> string list \<Rightarrow> 'fs world \<Rightarrow> (nat \<times> 'fs world) option" where
  "rootCmd e fuel verbose args w =
     (if length args = 0
      then Some (0, Println ''Usage: trash [file/directory paths...] to move items to trash''
                      (Println ''Welcome to Trash! Use --help to see available commands.'' w))
      else
       (case CreateTrashTimestampDir e w of
          (Inl err, w1) \<Rightarrow> Some (1, Eprintf ''Error creating trash directory: %v\<newline>'' [V err] w1)
        | (Inr trashDir, w1) \<Rightarrow>
           (let w2 = when_verbose verbose (Printf ''Created trash directory: %s\<newline>'' [S trashDir]) w1
            in case rootCmd_loop e fuel verbose trashDir args
                      (\<lparr>successCount = 0, failedPaths = [], metadata_Items = []\<rparr>, w2) of
                 None \<Rightarrow> None
               | Some (acc, w3) \<Rightarrow>
                  (let w4 = (if length (metadata_Items acc) > 0
                             then (case SaveRestoreMetadata e trashDir \<lparr>Items = metadata_Items acc\<rparr> w3 of
                                     (Some err, wa) \<Rightarrow>
                                       Eprintf ''Warning: failed to save restore metadata: %v\<newline>'' [V err] wa
                                   | (None, wa) \<Rightarrow> wa)
                             else w3);
                       w5 = (if successCount acc > 0
                             then Printf ''Successfully moved %d item(s) to trash\<newline>''
                                    [D (successCount acc)] w4
                             else w4)
                   in if length (failedPaths acc) > 0
                      then Some (1, Eprintf ''Failed to trash %d item(s)\<newline>''
                                      [D (length (failedPaths acc))] w5)
                      else Some (0, w5)))))"

section \<open>The restore command (restoreCmd, package cmd)\<close>

record MatchedItem =
  Timestamp :: string
  Item :: RestoreItem
  TrashDirPath :: string

text \<open>Lines 56-61: the names of the entries that are directories.\<close>

fun trashDirs_loop :: "DirEntry list \<Rightarrow> string list \<Rightarrow> string list" where
  "trashDirs_loop [] trashDirs = trashDirs"
| "trashDirs_loop (entry # entries) trashDirs =
     (if entry_IsDir entry
      then trashDirs_loop entries (trashDirs @ [entry_Name entry])
      else trashDirs_loop entries trashDirs)"

text \<open>
  Line 62, \<^verbatim>\<open>sort.Sort(sort.Reverse(sort.StringSlice(trashDirs)))\<close>: the strings in
  descending order. Equal strings cannot be told apart, so the result is the reversed
  ascending arrangement whatever the sorting algorithm.
\<close>

definition sort_Reverse_StringSlice :: "string list \<Rightarrow> string list" where
  "sort_Reverse_StringSlice trashDirs = rev (sort trashDirs)"

text \<open>Lines 91-99: the items of one batch that carry the name.\<close>

fun matches_loop ::
  "string \<Rightarrow> string \<Rightarrow> string \<Rightarrow> RestoreItem list \<Rightarrow> MatchedItem list \<Rightarrow> MatchedItem list" where
  "matches_loop itemName dirName dirPath [] matches = matches"
| "matches_loop itemName dirName dirPath (item # rest) matches =
     (if Name item = itemName
      then matches_loop itemName dirName dirPath rest
             (matches @ [\<lparr>Timestamp = dirName, Item = item, TrashDirPath = dirPath\<rparr>])
      else matches_loop itemName dirName dirPath rest matches)"

text \<open>Lines 65-100: the search over the sorted directories; every \<^verbatim>\<open>continue\<close> is a branch.\<close>

fun search_loop ::
  "'fs env \<Rightarrow> 'fs \<Rightarrow> string \<Rightarrow> string \<Rightarrow> string \<Rightarrow> string list \<Rightarrow> MatchedItem list \<Rightarrow> MatchedItem list" where
  "search_loop e s configDir itemName specifiedTimestamp [] matches = matches"
| "search_loop e s configDir itemName specifiedTimestamp (dirName # rest) matches =
     (if specifiedTimestamp \<noteq> [] \<and> dirName \<noteq> specifiedTimestamp
      then search_loop e s configDir itemName specifiedTimestamp rest matches
      else
       (let dirPath = filepath_Join e [configDir, dirName];
            restoreFile = filepath_Join e [dirPath, ''.restore'']
        in if (case os_Stat e s restoreFile of Inl err \<Rightarrow> os_IsNotExist err | Inr _ \<Rightarrow> False)
           then search_loop e s configDir itemName specifiedTimestamp rest matches
           else
            (case os_ReadFile e s restoreFile of
               Inl err \<Rightarrow> search_loop e s configDir itemName specifiedTimestamp rest matches
             | Inr data \<Rightarrow>
                (case json_Unmarshal e data of
                   (Some err, metadata) \<Rightarrow>
                     search_loop e s configDir itemName specifiedTimestamp rest matches
                 | (None, metadata) \<Rightarrow>
                     search_loop e s configDir itemName specifiedTimestamp rest
                       (matches_loop itemName dirName dirPath (Items metadata) matches)))))"

text \<open>Lines 110-118: the listing that \<^verbatim>\<open>--all\<close> prints, one numbered block per match.\<close>

fun show_loop :: "nat \<Rightarrow> MatchedItem list \<Rightarrow> 'fs world \<Rightarrow> 'fs world" where
  "show_loop i [] w = w"
| "show_loop i (match # rest) w =
     show_loop (i + 1) rest
       (Printf ''   Trashed:  %s\<newline>\<newline>'' [S (TrashedAt (Item match))]
         (Printf ''   Original: %s\<newline>'' [S (OriginalPath (Item match))]
           (Printf ''%d. [%s]\<newline>'' [D (i + 1), S (Timestamp match)] w)))"

definition show_all :: "string \<Rightarrow> MatchedItem list \<Rightarrow> 'fs world \<Rightarrow> 'fs world" where
  "show_all itemName matches w =
     Printf ''Example: trash restore %s --timestamp %s\<newline>'' [S itemName, S (Timestamp (matches ! 0))]
       (Println ''Use --timestamp flag to specify which one to restore''
         (show_loop 0 matches
           (Printf ''Found %d instances of '%s':\<newline>\<newline>'' [D (length matches), S itemName] w)))"

text \<open>
  Lines 203-208, the items that stay in the metadata:
  \<^verbatim>\<open>
  var updatedItems []config.RestoreItem
  for _, item := range metadata.Items {
      if item.Name != itemName { updatedItems = append(updatedItems, item) }
  }
  \<close>
  The loop is a recursion over the remaining items with the slice built so far.
\<close>

fun updatedItems_loop :: "string \<Rightarrow> RestoreItem list \<Rightarrow> RestoreItem list \<Rightarrow> RestoreItem list" where
  "updatedItems_loop itemName [] updated = updated"
| "updatedItems_loop itemName (item # rest) updated =
     (if Name item \<noteq> itemName
      then updatedItems_loop itemName rest (updated @ [item])
      else updatedItems_loop itemName rest updated)"

definition updatedItems :: "string \<Rightarrow> RestoreMetadata \<Rightarrow> RestoreItem list" where
  "updatedItems itemName metadata = updatedItems_loop itemName (Items metadata) []"

text \<open>
  Lines 198-201: the sidecar is read again and decoded, both errors dropped
  (\<^verbatim>\<open>data, _ := os.ReadFile(restoreFile)\<close>, \<^verbatim>\<open>json.Unmarshal(data, &metadata)\<close>).
  A failed read leaves no data.
\<close>

definition reread_metadata :: "'fs env \<Rightarrow> 'fs \<Rightarrow> string \<Rightarrow> RestoreMetadata" where
  "reread_metadata e s trashDir =
     (let restoreFile = filepath_Join e [trashDir, ''.restore''];
          data = (case os_ReadFile e s restoreFile of Inl _ \<Rightarrow> [] | Inr d \<Rightarrow> d)
      in snd (json_Unmarshal e data))"

text \<open>
  Lines 197-226: with the metadata read again, the batch directory is removed or the
  sidecar rewritten. The function returns: exit code 0.
\<close>

definition restore_update_metadata ::
  "'fs env \<Rightarrow> bool \<Rightarrow> string \<Rightarrow> string \<Rightarrow> string \<Rightarrow> string \<Rightarrow> 'fs world \<Rightarrow> nat \<times> 'fs world" where
  "restore_update_metadata e verbose itemName timestamp trashDir destPath w =
     (let metadata = reread_metadata e (fs w) trashDir;
          updated = updatedItems itemName metadata;
          w3 = (if length updated = 0
                then (case sys e (RemoveAll trashDir) w of
                        (err, w1) \<Rightarrow>
                          (let w2 = (case err of
                                       Some er \<Rightarrow>
                                         Eprintf ''Warning: failed to remove empty trash directory: %v\<newline>''
                                           [V er] w1
                                     | None \<Rightarrow> w1)
                           in when_verbose verbose
                                (Printf ''Removed empty trash directory: %s\<newline>'' [S timestamp]) w2))
                else (case SaveRestoreMetadata e trashDir (metadata\<lparr>Items := updated\<rparr>) w of
                        (Some er, w1) \<Rightarrow> Eprintf ''Warning: failed to update metadata: %v\<newline>'' [V er] w1
                      | (None, w1) \<Rightarrow> w1))
      in (0, Printf ''Successfully restored: %s\<newline>'' [S destPath] w3))"

text \<open>
  Lines 161-195: the rename, and the copy when the rename fails. \<open>None\<close> only when the
  copy of a directory runs out of fuel.
\<close>

definition restore_transfer ::
  "'fs env \<Rightarrow> nat \<Rightarrow> bool \<Rightarrow> string \<Rightarrow> string \<Rightarrow> string \<Rightarrow> string \<Rightarrow> string \<Rightarrow> 'fs world
     \<Rightarrow> (nat \<times> 'fs world) option" where
  "restore_transfer e fuel verbose itemName timestamp trashDir sourcePath destPath w =
     (case sys e (Rename sourcePath destPath) w of
        (None, w1) \<Rightarrow>
          Some (restore_update_metadata e verbose itemName timestamp trashDir destPath
                  (when_verbose verbose (Printf ''Restored: %s -> %s\<newline>'' [S itemName, S destPath]) w1))
      | (Some _, w1) \<Rightarrow>
         (case os_Stat e (fs w1) sourcePath of
            Inl err \<Rightarrow> Some (1, Eprintf ''Error accessing source: %v\<newline>'' [V err] w1)
          | Inr sourceInfo \<Rightarrow>
             (case (if IsDir sourceInfo
                    then (case CopyDir e fuel sourcePath destPath w1 of
                            None \<Rightarrow> None
                          | Some (Some err, w2) \<Rightarrow>
                              Some (Inl (Eprintf ''Error copying directory: %v\<newline>'' [V err] w2))
                          | Some (None, w2) \<Rightarrow> Some (Inr w2))
                    else (case CopyFile e sourcePath destPath w1 of
                            (Some err, w2) \<Rightarrow>
                              Some (Inl (Eprintf ''Error copying file: %v\<newline>'' [V err] w2))
                          | (None, w2) \<Rightarrow> Some (Inr w2))) of
                None \<Rightarrow> None
              | Some (Inl w2) \<Rightarrow> Some (1, w2)
              | Some (Inr w2) \<Rightarrow>
                 (case sys e (RemoveAll sourcePath) w2 of
                    (err, w3) \<Rightarrow>
                      (let w4 = (case err of
                                   Some er \<Rightarrow>
                                     Eprintf ''Warning: failed to remove from trash: %v\<newline>'' [V er] w3
                                 | None \<Rightarrow> w3);
                           w5 = when_verbose verbose
                                  (Printf ''Restored (copied): %s -> %s\<newline>'' [S itemName, S destPath]) w4
                       in Some (restore_update_metadata e verbose itemName timestamp trashDir destPath w5))))))"

text \<open>Lines 154-159, then the transfer.\<close>

definition restore_into_parent ::
  "'fs env \<Rightarrow> nat \<Rightarrow> bool \<Rightarrow> string \<Rightarrow> string \<Rightarrow> string \<Rightarrow> string \<Rightarrow> string \<Rightarrow> 'fs world
     \<Rightarrow> (nat \<times> 'fs world) option" where
  "restore_into_parent e fuel verbose itemName timestamp trashDir sourcePath destPath w =
     (let parentDir = filepath_Dir e destPath
      in case sys e (MkdirAll parentDir perm_0755) w of
           (Some err, w1) \<Rightarrow> Some (1, Eprintf ''Error creating parent directory: %v\<newline>'' [V err] w1)
         | (None, w1) \<Rightarrow>
             restore_transfer e fuel verbose itemName timestamp trashDir sourcePath destPath w1)"

text \<open>Lines 127-152 for the chosen match, then the rest.\<close>

definition restore_match ::
  "'fs env \<Rightarrow> nat \<Rightarrow> bool \<Rightarrow> bool \<Rightarrow> string \<Rightarrow> MatchedItem \<Rightarrow> 'fs world \<Rightarrow> (nat \<times> 'fs world) option" where
  "restore_match e fuel verbose force itemName match w =
     (let timestamp = Timestamp match;
          trashDir = TrashDirPath match;
          itemToRestore = Item match;
          sourcePath = filepath_Join e [trashDir, itemName];
          destPath = OriginalPath itemToRestore
      in case os_Stat e (fs w) destPath of
           Inr _ \<Rightarrow>
             if \<not> force
             then Some (1, Eprintf ''Use --force to overwrite\<newline>'' []
                             (Eprintf ''Error: destination already exists: %s\<newline>'' [S destPath] w))
             else
              (case sys e (RemoveAll destPath)
                      (when_verbose verbose
                         (Printf ''Overwriting existing file/directory: %s\<newline>'' [S destPath]) w) of
                 (Some err, w1) \<Rightarrow>
                   Some (1, Eprintf ''Error removing existing destination: %v\<newline>'' [V err] w1)
               | (None, w1) \<Rightarrow>
                   restore_into_parent e fuel verbose itemName timestamp trashDir sourcePath destPath w1)
         | Inl _ \<Rightarrow>
             restore_into_parent e fuel verbose itemName timestamp trashDir sourcePath destPath w)"

text \<open>Lines 46-100: the matches the search collects, or the error of reading the trash root.\<close>

definition find_matches :: "'fs env \<Rightarrow> 'fs \<Rightarrow> string \<Rightarrow> string \<Rightarrow> string \<Rightarrow> error + MatchedItem list" where
  "find_matches e s configDir itemName specifiedTimestamp =
     (case os_ReadDir e s configDir of
        Inl err \<Rightarrow> Inl err
      | Inr entries \<Rightarrow>
          Inr (search_loop e s configDir itemName specifiedTimestamp
                 (sort_Reverse_StringSlice (trashDirs_loop entries [])) []))"

text \<open>
  The \<^verbatim>\<open>Run\<close> function of \<^verbatim>\<open>restoreCmd\<close> with its argument and flags
  (\<^verbatim>\<open>--timestamp\<close>, \<^verbatim>\<open>--all\<close>, \<^verbatim>\<open>--verbose\<close>, \<^verbatim>\<open>--force\<close>): the exit code with the final state.
  Every \<^verbatim>\<open>os.Exit(1)\<close> ends the run at once with code 1; a \<^verbatim>\<open>return\<close> ends it with code 0.
  (\<^verbatim>\<open>Execute\<close> makes sure that the trash root exists before it runs a command; that
  step is not part of this function.)
\<close>

definition restoreCmd ::
  "'fs env \<Rightarrow> nat \<Rightarrow> string \<Rightarrow> string \<Rightarrow> bool \<Rightarrow> bool \<Rightarrow> bool \<Rightarrow> 'fs world \<Rightarrow> (nat \<times> 'fs world) option" where
  "restoreCmd e fuel itemName specifiedTimestamp showAll verbose force w =
     (case GetConfigDir e (fs w) of
        Inl err \<Rightarrow> Some (1, Eprintf ''Error getting config directory: %v\<newline>'' [V err] w)
      | Inr configDir \<Rightarrow>
         (case find_matches e (fs w) configDir itemName specifiedTimestamp of
            Inl err \<Rightarrow> Some (1, Eprintf ''Error reading trash directory: %v\<newline>'' [V err] w)
          | Inr matches \<Rightarrow>
             if length matches = 0
             then Some (1, Eprintf ''Error: item '%s' not found in trash\<newline>'' [S itemName] w)
             else if length matches > 1 \<and> showAll
             then Some (0, show_all itemName matches w)
             else
              (let w1 = (if length matches > 1 \<and> specifiedTimestamp = []
                         then Printf ''Use --all to see all matches or --timestamp to specify which one.\<newline>\<newline>'' []
                                (Printf ''Found %d instances of '%s'. Restoring the most recent one.\<newline>''
                                   [D (length matches), S itemName] w)
                         else w)
               in restore_match e fuel verbose force itemName (matches ! 0) w1)))"

section \<open>What one batch contributes to the search\<close>

text \<open>
  Lines 71-88 of restore.go, for one directory: the items of its sidecar, or none when the
  sidecar is missing, unreadable or does not parse (the three \<^verbatim>\<open>continue\<close> branches of
  \<open>search_loop\<close>). \<open>batch_matches\<close> is what lines 91-99 make of them. Both serve to state
  what \<open>search_loop\<close> computes.
\<close>

definition batch_items :: "'fs env \<Rightarrow> 'fs \<Rightarrow> string \<Rightarrow> string \<Rightarrow> RestoreItem list" where
  "batch_items e s configDir dirName =
     (let dirPath = filepath_Join e [configDir, dirName];
          restoreFile = filepath_Join e [dirPath, ''.restore'']
      in if (case os_Stat e s restoreFile of Inl err \<Rightarrow> os_IsNotExist err | Inr _ \<Rightarrow> False)
         then []
         else (case os_ReadFile e s restoreFile of
                 Inl err \<Rightarrow> []
               | Inr data \<Rightarrow>
                  (case json_Unmarshal e data of
                     (Some err, metadata) \<Rightarrow> []
                   | (None, metadata) \<Rightarrow> Items metadata)))"


section \<open>Runs as lists of calls\<close>

text \<open>
  \<open>replay e cs s\<close> is the state that the calls \<open>cs\<close>, made in this order, leave when they
  start in \<open>s\<close>. \<open>follows e w cs w'\<close> says that \<open>w'\<close> comes from \<open>w\<close> by exactly the calls
  \<open>cs\<close>: they are what was added to the calls of \<open>w\<close>, and the file system of \<open>w'\<close> is the
  one they leave. These serve to state what a run did to the file system.
\<close>

fun replay :: "'fs env \<Rightarrow> syscall list \<Rightarrow> 'fs \<Rightarrow> 'fs" where
  "replay e [] s = s"
| "replay e (c # cs) s = replay e cs (snd (os_exec e c s))"

definition follows :: "'fs env \<Rightarrow> 'fs world \<Rightarrow> syscall list \<Rightarrow> 'fs world \<Rightarrow> bool" where
  "follows e w cs w' = (calls w' = calls w @ cs \<and> fs w' = replay e cs (fs w))"

section \<open>An in-memory environment\<close>

text \<open>
  The properties below hold for every environment. To run the model on concrete inputs
  there is one small environment here: a file system held as a list of paths with their
  nodes (slash-separated absolute paths, home directory \<^verbatim>\<open>/h\<close>, working directory
  \<^verbatim>\<open>/w\<close>), a fixed clock, and a line-based codec in the place of JSON (a header line,
  then one line per item with its three fields separated by a bar). The writing calls
  listed in \<open>faults\<close> fail and change nothing: a rename with the cross-device error, any
  other call with a permission error.
\<close>


datatype node = File string nat | Directory nat

type_synonym mem_fs = "(string \<times> node) list"

fun mem_Join :: "string list \<Rightarrow> string" where
  "mem_Join [] = []"
| "mem_Join (p # ps) = (if mem_Join ps = [] then p else if p = [] then mem_Join ps else p @ ''/'' @ mem_Join ps)"

definition mem_Base :: "string \<Rightarrow> string" where
  "mem_Base p = rev (takeWhile (\<lambda>c. c \<noteq> CHR ''/'') (rev p))"

definition mem_Dir :: "string \<Rightarrow> string" where
  "mem_Dir p = (let d = rev (drop 1 (dropWhile (\<lambda>c. c \<noteq> CHR ''/'') (rev p))) in if d = [] then ''/'' else d)"

fun ancestors_rev :: "string \<Rightarrow> string list" where
  "ancestors_rev [] = []"
| "ancestors_rev (c # cs) = (if c = CHR ''/'' \<and> cs \<noteq> [] then [rev cs] else []) @ ancestors_rev cs"

definition is_under :: "string \<Rightarrow> string \<Rightarrow> bool" where
  "is_under p q = (q = p \<or> take (length p + 1) q = p @ ''/'')"

definition is_dir :: "mem_fs \<Rightarrow> string \<Rightarrow> bool" where
  "is_dir s p = (case map_of s p of Some (Directory m) \<Rightarrow> True | _ \<Rightarrow> False)"

definition mem_Stat :: "mem_fs \<Rightarrow> string \<Rightarrow> error + FileInfo" where
  "mem_Stat s p = (case map_of s p of
      None \<Rightarrow> Inl ErrNotExist
    | Some (File c m) \<Rightarrow> Inr \<lparr>IsDir = False, Mode = m\<rparr>
    | Some (Directory m) \<Rightarrow> Inr \<lparr>IsDir = True, Mode = m\<rparr>)"

definition mem_ReadDir :: "mem_fs \<Rightarrow> string \<Rightarrow> error + DirEntry list" where
  "mem_ReadDir s p = (case map_of s p of
      None \<Rightarrow> Inl ErrNotExist
    | Some (File c m) \<Rightarrow> Inl ErrInvalid
    | Some (Directory m) \<Rightarrow>
        Inr (sort_key entry_Name
               (map (\<lambda>(q, n). \<lparr>entry_Name = mem_Base q, entry_IsDir = (case n of Directory _ \<Rightarrow> True | _ \<Rightarrow> False)\<rparr>)
                  (filter (\<lambda>(q, n). q \<noteq> p \<and> mem_Dir q = p) s))))"

definition mem_ReadFile :: "mem_fs \<Rightarrow> string \<Rightarrow> error + string" where
  "mem_ReadFile s p = (case map_of s p of
      None \<Rightarrow> Inl ErrNotExist
    | Some (File c m) \<Rightarrow> Inr c
    | Some (Directory m) \<Rightarrow> Inl ErrInvalid)"

definition mem_Open :: "mem_fs \<Rightarrow> string \<Rightarrow> error option" where
  "mem_Open s p = (case map_of s p of None \<Rightarrow> Some ErrNotExist | Some _ \<Rightarrow> None)"

definition put :: "string \<Rightarrow> node \<Rightarrow> mem_fs \<Rightarrow> mem_fs" where
  "put p n s = (if map_of s p = None then s @ [(p, n)] else map (\<lambda>(q, m). if q = p then (q, n) else (q, m)) s)"

fun mem_exec :: "syscall \<Rightarrow> mem_fs \<Rightarrow> error option \<times> mem_fs" where
  "mem_exec (Rename src dst) s =
     (if map_of s src = None \<or> \<not> is_dir s (mem_Dir dst) then (Some ErrNotExist, s)
      else if src = dst then (None, s)
      else (None, map (\<lambda>(q, n). if is_under src q then (dst @ drop (length src) q, n) else (q, n))
                    (filter (\<lambda>(q, n). \<not> is_under dst q) s)))"
| "mem_exec (Remove p) s =
     (if map_of s p = None then (Some ErrNotExist, s)
      else if filter (\<lambda>(q, n). q \<noteq> p \<and> is_under p q) s \<noteq> [] then (Some ErrNotEmpty, s)
      else (None, filter (\<lambda>(q, n). q \<noteq> p) s))"
| "mem_exec (RemoveAll p) s = (None, filter (\<lambda>(q, n). \<not> is_under p q) s)"
| "mem_exec (MkdirAll p m) s =
     (if list_ex (\<lambda>q. case map_of s q of Some (File _ _) \<Rightarrow> True | _ \<Rightarrow> False) (p # ancestors_rev (rev p))
      then (Some ErrExist, s)
      else (None, s @ map (\<lambda>q. (q, Directory m)) (filter (\<lambda>q. map_of s q = None) (rev (p # ancestors_rev (rev p))))))"
| "mem_exec (WriteFile p d m) s =
     (if \<not> is_dir s (mem_Dir p) then (Some ErrNotExist, s)
      else case map_of s p of
             Some (Directory _) \<Rightarrow> (Some ErrInvalid, s)
           | Some (File _ m') \<Rightarrow> (None, put p (File d m') s)
           | None \<Rightarrow> (None, put p (File d m) s))"
| "mem_exec (Create p) s =
     (if \<not> is_dir s (mem_Dir p) then (Some ErrNotExist, s)
      else case map_of s p of
             Some (Directory _) \<Rightarrow> (Some ErrInvalid, s)
           | Some (File _ m') \<Rightarrow> (None, put p (File [] m') s)
           | None \<Rightarrow> (None, put p (File [] perm_0644) s))"
| "mem_exec (ReadFrom dst src) s =
     (case (map_of s dst, map_of s src) of
        (Some (File _ m), Some (File c _)) \<Rightarrow> (None, put dst (File c m) s)
      | _ \<Rightarrow> (Some ErrInvalid, s))"
| "mem_exec (Chmod p m) s =
     (case map_of s p of
        None \<Rightarrow> (Some ErrNotExist, s)
      | Some (File c _) \<Rightarrow> (None, put p (File c m) s)
      | Some (Directory _) \<Rightarrow> (None, put p (Directory m) s))"

fun split_on :: "char \<Rightarrow> string \<Rightarrow> string list" where
  "split_on c [] = [[]]"
| "split_on c (x # xs) =
     (if x = c then [] # split_on c xs
      else (case split_on c xs of [] \<Rightarrow> [[x]] | y # ys \<Rightarrow> (x # y) # ys))"

definition mem_Marshal :: "RestoreMetadata \<Rightarrow> error + string" where
  "mem_Marshal metadata =
     Inr (''items\<newline>'' @ concat (map (\<lambda>i. Name i @ ''|'' @ OriginalPath i @ ''|'' @ TrashedAt i @ ''\<newline>'') (Items metadata)))"

fun parse_items :: "string list \<Rightarrow> RestoreItem list option" where
  "parse_items [] = Some []"
| "parse_items (l # ls) =
     (case split_on CHR ''|'' l of
        [n, p, t] \<Rightarrow> (case parse_items ls of None \<Rightarrow> None | Some is \<Rightarrow> Some (\<lparr>Name = n, OriginalPath = p, TrashedAt = t\<rparr> # is))
      | _ \<Rightarrow> None)"

definition mem_Unmarshal :: "string \<Rightarrow> error option \<times> RestoreMetadata" where
  "mem_Unmarshal data =
     (case split_on CHR 10 data of
        h # ls \<Rightarrow>
          (if h = ''items'' \<and> ls \<noteq> [] \<and> last ls = []
           then (case parse_items (butlast ls) of
                   Some is \<Rightarrow> (None, \<lparr>Items = is\<rparr>)
                 | None \<Rightarrow> (Some ErrSyntax, \<lparr>Items = []\<rparr>))
           else (Some ErrSyntax, \<lparr>Items = []\<rparr>))
      | [] \<Rightarrow> (Some ErrSyntax, \<lparr>Items = []\<rparr>))"

definition mem_env :: "syscall list \<Rightarrow> mem_fs env" where
  "mem_env faults =
     \<lparr>os_UserHomeDir = (\<lambda>s. Inr ''/h''),
      os_Getwd = (\<lambda>s. Inr ''/w''),
      os_Stat = mem_Stat,
      os_ReadDir = mem_ReadDir,
      os_ReadFile = mem_ReadFile,
      os_Open = mem_Open,
      os_exec = (\<lambda>c s. if c \<in> set faults then (Some (case c of Rename _ _ \<Rightarrow> ErrCrossDevice | _ \<Rightarrow> ErrPermission), s)
                        else mem_exec c s),
      filepath_Abs = (\<lambda>s p. Inr (if take 1 p = ''/'' then p else ''/w/'' @ p)),
      filepath_Join = mem_Join,
      filepath_Dir = mem_Dir,
      filepath_Base = mem_Base,
      time_Now_Format = (\<lambda>s layout. if layout = time_RFC3339 then ''2025-12-17T01:00:06Z'' else ''20251217_010006''),
      json_MarshalIndent = mem_Marshal,
      json_Unmarshal = mem_Unmarshal\<rparr>"

text \<open>
  A trash root with two batches. Both hold an \<^verbatim>\<open>a.txt\<close> trashed from \<^verbatim>\<open>/w/a.txt\<close>; the
  older batch also holds \<^verbatim>\<open>b.txt\<close>.
\<close>

definition two_batches :: "mem_fs world" where
  "two_batches =
     \<lparr>fs = [(''/'', Directory 493), (''/h'', Directory 493), (''/h/.config'', Directory 493),
            (''/h/.config/trash'', Directory 493), (''/w'', Directory 493),
            (''/h/.config/trash/20251217_010006'', Directory 493),
            (''/h/.config/trash/20251217_010006/a.txt'', File ''first'' 420),
            (''/h/.config/trash/20251217_010006/b.txt'', File ''other'' 420),
            (''/h/.config/trash/20251217_010006/.restore'',
               File ''items\<newline>a.txt|/w/a.txt|2025-12-17T01:00:06Z\<newline>b.txt|/w/b.txt|2025-12-17T01:00:06Z\<newline>'' 420),
            (''/h/.config/trash/20260101_000000'', Directory 493),
            (''/h/.config/trash/20260101_000000/a.txt'', File ''second'' 420),
            (''/h/.config/trash/20260101_000000/.restore'',
               File ''items\<newline>a.txt|/w/a.txt|2026-01-01T00:00:00Z\<newline>'' 420)],
      calls = [], out = []\<rparr>"

text \<open>
  A working directory with a file and a directory to trash, and an empty trash root.
\<close>

definition work_dir :: "mem_fs world" where
  "work_dir =
     \<lparr>fs = [(''/'', Directory 493), (''/h'', Directory 493), (''/h/.config'', Directory 493),
            (''/h/.config/trash'', Directory 493), (''/w'', Directory 493),
            (''/w/a.txt'', File ''hello'' 420), (''/w/d'', Directory 493),
            (''/w/d/b.txt'', File ''bye'' 420)],
      calls = [], out = []\<rparr>"



text \<open>
  A batch whose sidecar still lists \<^verbatim>\<open>a.txt\<close> although the file is gone from the batch
  directory; the original place holds a new file.
\<close>

definition stale_batch :: "mem_fs world" where
  "stale_batch =
     \<lparr>fs = [(''/'', Directory 493), (''/h'', Directory 493), (''/h/.config'', Directory 493),
            (''/h/.config/trash'', Directory 493), (''/w'', Directory 493),
            (''/w/a.txt'', File ''current'' 420),
            (''/h/.config/trash/20251217_010006'', Directory 493),
            (''/h/.config/trash/20251217_010006/.restore'',
               File ''items\<newline>a.txt|/w/a.txt|2025-12-17T01:00:06Z\<newline>'' 420)],
      calls = [], out = []\<rparr>"

text \<open>
  What \<^verbatim>\<open>trash .restore other.txt\<close> leaves: the sidecar, written last, has taken the place of
  the trashed file of the same name, and lists both items.
\<close>

definition dot_restore_batch :: "mem_fs world" where
  "dot_restore_batch =
     \<lparr>fs = [(''/'', Directory 493), (''/h'', Directory 493), (''/h/.config'', Directory 493),
            (''/h/.config/trash'', Directory 493), (''/w'', Directory 493),
            (''/h/.config/trash/20251217_010006'', Directory 493),
            (''/h/.config/trash/20251217_010006/other.txt'', File ''other'' 420),
            (''/h/.config/trash/20251217_010006/.restore'',
               File ''items\<newline>.restore|/w/.restore|2025-12-17T01:00:06Z\<newline>other.txt|/w/other.txt|2025-12-17T01:00:06Z\<newline>'' 420)],
      calls = [], out = []\<rparr>"

section \<open>Properties\<close>

lemma updatedItems_loop_filter:
  "updatedItems_loop itemName items updated =
     updated @ filter (\<lambda>item. Name item \<noteq> itemName) items"
  by (induction items arbitrary: updated) simp_all

text \<open>
  Claim C4. Removing a name from a metadata record keeps exactly the items whose name
  differs from it, in their original order; every entry carrying the name is dropped,
  however many there are.
\<close>

theorem updatedItems_removes_every_entry_of_name:
  "updatedItems itemName metadata = filter (\<lambda>item. Name item \<noteq> itemName) (Items metadata)"
  by (simp add: updatedItems_def updatedItems_loop_filter)

subsection \<open>The search and the choice of the match\<close>










subsection \<open>What the calls leave unchanged\<close>

text \<open>
  The library calls print nothing; they add to the list of calls and change the file
  system as the replay of these calls says. The same holds of the copiers, of
  \<open>MoveToTrash\<close> and of \<open>SaveRestoreMetadata\<close>.
\<close>

lemma sys_effect:
  assumes "sys e c w = (r, w')"
  shows "out w' = out w" and "calls w' = calls w @ [c]"
    and "fs w' = snd (os_exec e c (fs w))" and "r = fst (os_exec e c (fs w))"
  using assms by (auto simp: sys_def split: prod.splits)

lemma replay_append: "replay e (cs @ ds) s = replay e ds (replay e cs s)"
  by (induction cs arbitrary: s) simp_all

lemma follows_refl: "follows e w [] w"
  by (simp add: follows_def)

lemma follows_ex_refl: "\<exists>cs. follows e w cs w"
  using follows_refl by blast

lemma follows_append:
  assumes "follows e w cs w1" and "follows e w1 ds w2"
  shows "follows e w (cs @ ds) w2"
  using assms by (simp add: follows_def replay_append)

lemma follows_sys:
  assumes "sys e c w = (r, w')"
  shows "follows e w [c] w'"
  using sys_effect(2,3)[OF assms] by (simp add: follows_def)

lemma sys_grows:
  assumes "sys e c w = (r, w')"
  shows "out w' = out w \<and> (\<exists>cs. follows e w cs w')"
  using sys_effect(1)[OF assms] follows_sys[OF assms] by blast

lemma grows_trans:
  assumes "out w1 = out w \<and> (\<exists>cs. follows e w cs w1)"
    and "out w2 = out w1 \<and> (\<exists>cs. follows e w1 cs w2)"
  shows "out w2 = out w \<and> (\<exists>cs. follows e w cs w2)"
  using assms follows_append by metis

lemma CopyFile_grows:
  assumes "CopyFile e src dst w = (r, w')"
  shows "out w' = out w \<and> (\<exists>cs. follows e w cs w')"
proof (cases "os_Open e (fs w) src")
  case (Some err)
  with assms show ?thesis by (simp add: CopyFile_def follows_ex_refl)
next
  case None
  obtain r1 w1 where c1: "sys e (Create dst) w = (r1, w1)" by force
  obtain r2 w2 where c2: "sys e (ReadFrom dst src) w1 = (r2, w2)" by force
  obtain r3 w3 where c3: "sys e (Chmod dst (Mode (projr (os_Stat e (fs w2) src)))) w2 = (r3, w3)"
    by force
  note g1 = sys_grows[OF c1]
  note g2 = grows_trans[OF g1 sys_grows[OF c2]]
  note g3 = grows_trans[OF g2 sys_grows[OF c3]]
  from assms None c1 c2 c3 have "w' = w1 \<or> w' = w2 \<or> w' = w3"
    by (auto simp: CopyFile_def split: option.splits sum.splits)
  with g1 g2 g3 show ?thesis by blast
qed

lemma CopyDir_grows:
  "CopyDir e fuel src dst w = Some (r, w') \<Longrightarrow> out w' = out w \<and> (\<exists>cs. follows e w cs w')"
  "CopyDir_entries e fuel src dst entries w = Some (r, w') \<Longrightarrow>
     out w' = out w \<and> (\<exists>cs. follows e w cs w')"
proof (induction e fuel src dst w and e fuel src dst entries w
        arbitrary: r w' and r w' rule: CopyDir_CopyDir_entries.induct)
  case (1 e src dst w)
  then show ?case by simp
next
  case (2 e fuel src dst w)
  show ?case
  proof (cases "os_Stat e (fs w) src")
    case (Inl err)
    with "2.prems" show ?thesis by (simp add: follows_ex_refl)
  next
    case info: (Inr sourceInfo)
    obtain r1 w1 where mk: "sys e (MkdirAll dst (Mode sourceInfo)) w = (r1, w1)" by force
    note g1 = sys_grows[OF mk]
    show ?thesis
    proof (cases r1)
      case (Some err)
      with "2.prems" info mk g1 show ?thesis by simp
    next
      case None
      show ?thesis
      proof (cases "os_ReadDir e (fs w1) src")
        case (Inl err)
        with "2.prems" info mk None g1 show ?thesis by simp
      next
        case rd: (Inr entries)
        with "2.prems" info mk None
        have "CopyDir_entries e fuel src dst entries w1 = Some (r, w')" by simp
        from grows_trans[OF g1 "2.IH"[OF info mk[symmetric] None rd this]] show ?thesis .
      qed
    qed
  qed
next
  case (3 e fuel src dst w)
  then show ?case by (simp add: follows_ex_refl)
next
  case (4 e fuel src dst entry entries w)
  let ?srcPath = "filepath_Join e [src, entry_Name entry]"
  let ?dstPath = "filepath_Join e [dst, entry_Name entry]"
  let ?one = "if entry_IsDir entry then CopyDir e fuel ?srcPath ?dstPath w
              else Some (CopyFile e ?srcPath ?dstPath w)"
  from "4.prems" obtain r1 w1 where one: "?one = Some (r1, w1)"
    by (auto simp: Let_def split: option.splits)
  have g1: "out w1 = out w \<and> (\<exists>cs. follows e w cs w1)"
  proof (cases "entry_IsDir entry")
    case True
    with one have "CopyDir e fuel ?srcPath ?dstPath w = Some (r1, w1)" by simp
    from "4.IH"(1)[OF refl refl True this] show ?thesis .
  next
    case False
    with one have "CopyFile e ?srcPath ?dstPath w = (r1, w1)" by simp
    from CopyFile_grows[OF this] show ?thesis .
  qed
  show ?case
  proof (cases r1)
    case (Some err)
    with "4.prems" one have "w' = w1" by (simp add: Let_def)
    with g1 show ?thesis by simp
  next
    case None
    with "4.prems" one have rest: "CopyDir_entries e fuel src dst entries w1 = Some (r, w')"
      by (simp add: Let_def)
    from grows_trans[OF g1 "4.IH"(2)[OF refl refl one[unfolded None] refl refl rest]] show ?thesis .
  qed
qed

lemma copy_grows:
  assumes "(if isDir then CopyDir e fuel src dst w else Some (CopyFile e src dst w)) = Some (r, w')"
  shows "out w' = out w \<and> (\<exists>cs. follows e w cs w')"
proof (cases isDir)
  case True
  with assms have "CopyDir e fuel src dst w = Some (r, w')" by simp
  then show ?thesis by (rule CopyDir_grows(1))
next
  case False
  with assms have "CopyFile e src dst w = (r, w')" by simp
  then show ?thesis by (rule CopyFile_grows)
qed

lemma MoveToTrash_grows:
  assumes "MoveToTrash e fuel sourcePath trashDir w = Some (r, w')"
  shows "out w' = out w \<and> (\<exists>cs. follows e w cs w')"
proof (cases "filepath_Abs e (fs w) sourcePath")
  case (Inl err)
  with assms show ?thesis by (simp add: MoveToTrash_def follows_ex_refl)
next
  case abs: (Inr absPath)
  show ?thesis
  proof (cases "os_Stat e (fs w) absPath")
    case (Inl err)
    with assms abs show ?thesis by (auto simp: MoveToTrash_def follows_ex_refl split: if_splits)
  next
    case info: (Inr sourceInfo)
    let ?dest = "filepath_Join e [trashDir, filepath_Base e absPath]"
    obtain r1 w1 where mv: "sys e (Rename absPath ?dest) w = (r1, w1)" by force
    note g1 = sys_grows[OF mv]
    show ?thesis
    proof (cases r1)
      case None
      with assms abs info mv have "w' = w1" by (simp add: MoveToTrash_def Let_def)
      with g1 show ?thesis by simp
    next
      case (Some err)
      let ?copy = "if IsDir sourceInfo then CopyDir e fuel absPath ?dest w1
                   else Some (CopyFile e absPath ?dest w1)"
      have "\<exists>r2 w2. ?copy = Some (r2, w2)"
      proof (cases "IsDir sourceInfo")
        case True
        with assms abs info mv Some show ?thesis
          by (cases "CopyDir e fuel absPath ?dest w1") (auto simp: MoveToTrash_def Let_def)
      next
        case False
        then show ?thesis by (cases "CopyFile e absPath ?dest w1") simp
      qed
      then obtain r2 w2 where cp: "?copy = Some (r2, w2)" by blast
      note g2 = grows_trans[OF g1 copy_grows[OF cp]]
      obtain r3 w3 where rm:
        "sys e (if IsDir sourceInfo then RemoveAll absPath else Remove absPath) w2 = (r3, w3)"
        by force
      note g3 = grows_trans[OF g2 sys_grows[OF rm]]
      from assms abs info mv Some cp rm have "w' = w2 \<or> w' = w3"
        by (auto simp: MoveToTrash_def Let_def split: option.splits if_splits)
      with g2 g3 show ?thesis by blast
    qed
  qed
qed

subsection \<open>The loop of the trash command\<close>

lemma MoveToTrash_missing:
  assumes "filepath_Abs e (fs w) path = Inr absPath" and "os_Stat e (fs w) absPath = Inl ErrNotExist"
  shows "MoveToTrash e fuel path trashDir w =
           Some (Inl (Errorf ''path does not exist: %s'' [S absPath]), w)"
  using assms by (simp add: MoveToTrash_def os_IsNotExist_def)

lemma rootCmd_step_failure:
  assumes "MoveToTrash e fuel path trashDir w = Some (Inl err, w1)"
  shows "rootCmd_step e fuel verbose trashDir path (acc, w) =
           Some (acc\<lparr>failedPaths := failedPaths acc @ [path]\<rparr>, Eprintf ''Error: %v\<newline>'' [V err] w1)"
  using assms by (simp add: rootCmd_step_def Let_def)

lemma rootCmd_step_counts:
  assumes "rootCmd_step e fuel verbose trashDir path (acc, w) = Some (acc', w')"
  shows "(\<exists>os. out w' = out w @ os) \<and>
         (successCount acc' = successCount acc + 1 \<and> failedPaths acc' = failedPaths acc \<or>
          successCount acc' = successCount acc \<and> failedPaths acc' = failedPaths acc @ [path])"
proof -
  from assms obtain r w1 where mv: "MoveToTrash e fuel path trashDir w = Some (r, w1)"
    by (auto simp: rootCmd_step_def Let_def split: option.splits)
  from MoveToTrash_grows[OF mv] have o: "out w1 = out w" by simp
  show ?thesis
  proof (cases r)
    case (Inl err)
    with assms mv o show ?thesis by (auto simp: rootCmd_step_def Let_def Eprintf_def)
  next
    case (Inr baseName)
    with assms mv o show ?thesis
      by (auto simp: rootCmd_step_def Let_def Printf_def when_verbose_def)
  qed
qed

lemma rootCmd_loop_counts:
  assumes "rootCmd_loop e fuel verbose trashDir args (acc, w) = Some (acc', w')"
  shows "(\<exists>os. out w' = out w @ os) \<and>
         successCount acc' + length (failedPaths acc') =
           successCount acc + length (failedPaths acc) + length args \<and>
         length (failedPaths acc) \<le> length (failedPaths acc')"
  using assms
proof (induction args arbitrary: acc w)
  case Nil
  then show ?case by simp
next
  case (Cons path args)
  from Cons.prems obtain acc1 w1
    where step: "rootCmd_step e fuel verbose trashDir path (acc, w) = Some (acc1, w1)"
      and rest: "rootCmd_loop e fuel verbose trashDir args (acc1, w1) = Some (acc', w')"
    by (auto split: option.splits)
  from rootCmd_step_counts[OF step] Cons.IH[OF rest] show ?case by auto
qed

lemma rootCmd_loop_append:
  "rootCmd_loop e fuel verbose trashDir (xs @ ys) st =
     (case rootCmd_loop e fuel verbose trashDir xs st of
        None \<Rightarrow> None
      | Some st' \<Rightarrow> rootCmd_loop e fuel verbose trashDir ys st')"
  by (induction xs arbitrary: st) (auto split: option.splits)

lemma SaveRestoreMetadata_grows:
  assumes "SaveRestoreMetadata e trashDir metadata w = (r, w')"
  shows "out w' = out w \<and> (\<exists>cs. follows e w cs w')"
proof (cases "json_MarshalIndent e metadata")
  case (Inl err)
  with assms show ?thesis by (simp add: SaveRestoreMetadata_def Let_def follows_ex_refl)
next
  case (Inr jsonData)
  obtain r1 w1
    where wr: "sys e (WriteFile (filepath_Join e [trashDir, ''.restore'']) jsonData perm_0644) w = (r1, w1)"
    by force
  with assms Inr have "w' = w1" by (cases r1) (simp_all add: SaveRestoreMetadata_def Let_def)
  with sys_grows[OF wr] show ?thesis by simp
qed

text \<open>
  Claim C6. The paths of one invocation are \<open>before @ path # after\<close>. Every path of
  \<open>before\<close> is moved (the loop over them ends with no failed path), \<open>path\<close> does not
  exist when its turn comes, and every path of \<open>after\<close> is moved (the loop over them adds
  no failed path). Then the loop runs over all of them: the run ends with exit code 1,
  the number of successes is one less than the number of paths, the error of the missing
  path is on standard error, the last line reports one failure, and the line that
  reports the successes is printed (it is printed only for a positive count).
\<close>

theorem one_missing_path_is_counted:
  assumes created: "CreateTrashTimestampDir e w = (Inr trashDir, w1)"
    and before: "rootCmd_loop e fuel verbose trashDir before
                   (\<lparr>successCount = 0, failedPaths = [], metadata_Items = []\<rparr>,
                    when_verbose verbose (Printf ''Created trash directory: %s\<newline>'' [S trashDir]) w1)
                 = Some (acc1, wa)"
    and before_ok: "failedPaths acc1 = []"
    and abs: "filepath_Abs e (fs wa) path = Inr absPath"
    and missing: "os_Stat e (fs wa) absPath = Inl ErrNotExist"
    and after: "rootCmd_loop e fuel verbose trashDir after
                  (acc1\<lparr>failedPaths := [path]\<rparr>,
                   Eprintf ''Error: %v\<newline>'' [V (Errorf ''path does not exist: %s'' [S absPath])] wa)
                = Some (acc2, wb)"
    and after_ok: "failedPaths acc2 = [path]"
  shows "\<exists>w'. rootCmd e fuel verbose (before @ path # after) w = Some (1, w') \<and>
           successCount acc2 = length (before @ path # after) - 1 \<and>
           (Stderr, ''Error: %v\<newline>'', [V (Errorf ''path does not exist: %s'' [S absPath])]) \<in> set (out w') \<and>
           (0 < length (before @ after) \<longrightarrow>
              (Stdout, ''Successfully moved %d item(s) to trash\<newline>'',
                 [D (length (before @ path # after) - 1)]) \<in> set (out w')) \<and>
           last (out w') = (Stderr, ''Failed to trash %d item(s)\<newline>'', [D 1])"
proof -
  let ?err = "(Stderr, ''Error: %v\<newline>'', [V (Errorf ''path does not exist: %s'' [S absPath])])"
  let ?st0 = "(\<lparr>successCount = 0, failedPaths = [], metadata_Items = []\<rparr>,
               when_verbose verbose (Printf ''Created trash directory: %s\<newline>'' [S trashDir]) w1)"
  have step: "rootCmd_step e fuel verbose trashDir path (acc1, wa) =
                Some (acc1\<lparr>failedPaths := [path]\<rparr>,
                      Eprintf ''Error: %v\<newline>'' [V (Errorf ''path does not exist: %s'' [S absPath])] wa)"
    using rootCmd_step_failure[OF MoveToTrash_missing[OF abs missing], where acc = acc1]
      before_ok by simp
  have loop: "rootCmd_loop e fuel verbose trashDir (before @ path # after) ?st0 = Some (acc2, wb)"
    by (simp add: rootCmd_loop_append before step after)
  from rootCmd_loop_counts[OF before] before_ok
  have n1: "successCount acc1 = length before" by simp
  from rootCmd_loop_counts[OF after] after_ok n1
  have n2: "successCount acc2 = length before + length after"
    and "\<exists>os. out wb = out wa @ [?err] @ os"
    by (auto simp: Eprintf_def)
  then have err_in: "?err \<in> set (out wb)" by auto
  let ?w4 = "if length (metadata_Items acc2) > 0
             then (case SaveRestoreMetadata e trashDir \<lparr>Items = metadata_Items acc2\<rparr> wb of
                     (Some err, wx) \<Rightarrow>
                       Eprintf ''Warning: failed to save restore metadata: %v\<newline>'' [V err] wx
                   | (None, wx) \<Rightarrow> wx)
             else wb"
  let ?w5 = "if successCount acc2 > 0
             then Printf ''Successfully moved %d item(s) to trash\<newline>'' [D (successCount acc2)] ?w4
             else ?w4"
  let ?w' = "Eprintf ''Failed to trash %d item(s)\<newline>'' [D (length (failedPaths acc2))] ?w5"
  have run: "rootCmd e fuel verbose (before @ path # after) w = Some (1, ?w')"
    using created loop after_ok by (simp add: rootCmd_def Let_def)
  have "\<exists>os. out ?w4 = out wb @ os"
  proof (cases "length (metadata_Items acc2) > 0")
    case False
    then show ?thesis by simp
  next
    case True
    obtain r wx where sv: "SaveRestoreMetadata e trashDir \<lparr>Items = metadata_Items acc2\<rparr> wb = (r, wx)"
      by force
    from SaveRestoreMetadata_grows[OF sv] True sv show ?thesis
      by (cases r) (simp_all add: Eprintf_def)
  qed
  with err_in have in4: "?err \<in> set (out ?w4)" by auto
  then have in5: "?err \<in> set (out ?w5)" by (simp add: Printf_def)
  then have in': "?err \<in> set (out ?w')" by (simp add: Eprintf_def)
  have succ: "0 < length (before @ after) \<longrightarrow>
              (Stdout, ''Successfully moved %d item(s) to trash\<newline>'',
                 [D (length (before @ path # after) - 1)]) \<in> set (out ?w')"
    using n2 by (simp add: Printf_def Eprintf_def)
  have last: "last (out ?w') = (Stderr, ''Failed to trash %d item(s)\<newline>'', [D 1])"
    using after_ok by (simp add: Eprintf_def)
  from run n2 in' succ last show ?thesis by auto
qed

theorem one_missing_path_is_counted_witness:
  "\<exists>w'. rootCmd (mem_env []) 0 False ([''a.txt''] @ ''nope'' # [''d'']) work_dir = Some (1, w') \<and>
         (Stderr, ''Error: %v\<newline>'', [V (Errorf ''path does not exist: %s'' [S ''/w/nope''])]) \<in> set (out w') \<and>
         (Stdout, ''Successfully moved %d item(s) to trash\<newline>'', [D 2]) \<in> set (out w') \<and>
         last (out w') = (Stderr, ''Failed to trash %d item(s)\<newline>'', [D 1])"
proof -
  let ?e = "mem_env []"
  let ?t = "''/h/.config/trash/20251217_010006''"
  define w1 where "w1 = snd (CreateTrashTimestampDir ?e work_dir)"
  define st1 where "st1 = the (rootCmd_loop ?e 0 False ?t [''a.txt'']
      (\<lparr>successCount = 0, failedPaths = [], metadata_Items = []\<rparr>,
       when_verbose False (Printf ''Created trash directory: %s\<newline>'' [S ?t]) w1))"
  define st2 where "st2 = the (rootCmd_loop ?e 0 False ?t [''d'']
      ((fst st1)\<lparr>failedPaths := [''nope'']\<rparr>,
       Eprintf ''Error: %v\<newline>'' [V (Errorf ''path does not exist: %s'' [S ''/w/nope''])] (snd st1)))"
  have created: "CreateTrashTimestampDir ?e work_dir = (Inr ?t, w1)"
    unfolding w1_def by code_simp
  have before: "rootCmd_loop ?e 0 False ?t [''a.txt'']
      (\<lparr>successCount = 0, failedPaths = [], metadata_Items = []\<rparr>,
       when_verbose False (Printf ''Created trash directory: %s\<newline>'' [S ?t]) w1) = Some (fst st1, snd st1)"
    unfolding st1_def w1_def by code_simp
  have before_ok: "failedPaths (fst st1) = []"
    unfolding st1_def w1_def by code_simp
  have abs: "filepath_Abs ?e (fs (snd st1)) ''nope'' = Inr ''/w/nope''"
    unfolding st1_def w1_def by code_simp
  have missing: "os_Stat ?e (fs (snd st1)) ''/w/nope'' = Inl ErrNotExist"
    unfolding st1_def w1_def by code_simp
  have after: "rootCmd_loop ?e 0 False ?t [''d'']
      ((fst st1)\<lparr>failedPaths := [''nope'']\<rparr>,
       Eprintf ''Error: %v\<newline>'' [V (Errorf ''path does not exist: %s'' [S ''/w/nope''])] (snd st1))
      = Some (fst st2, snd st2)"
    unfolding st2_def st1_def w1_def by code_simp
  have after_ok: "failedPaths (fst st2) = [''nope'']"
    unfolding st2_def st1_def w1_def by code_simp
  from one_missing_path_is_counted[OF created before before_ok abs missing after after_ok]
  show ?thesis by (auto simp: numeral_2_eq_2)
qed

subsection \<open>A removal that fails after the fallback copy\<close>

text \<open>
  Claim C2, as amended. When the rename fails, the fallback copy succeeds and the removal
  of the original fails, \<open>MoveToTrash\<close> returns the error of the removal and no base
  name; the loop of the trash command prints it as an error and records the path as
  failed, leaving the success count and the metadata items as they were. The copy stays
  in the batch: nothing is rolled back.
\<close>

theorem MoveToTrash_failed_removal_is_an_error:
  assumes abs: "filepath_Abs e (fs w) sourcePath = Inr absPath"
    and info: "os_Stat e (fs w) absPath = Inr sourceInfo"
    and rename_fails:
      "sys e (Rename absPath (filepath_Join e [trashDir, filepath_Base e absPath])) w = (Some err0, w1)"
    and copy_succeeds:
      "(if IsDir sourceInfo
        then CopyDir e fuel absPath (filepath_Join e [trashDir, filepath_Base e absPath]) w1
        else Some (CopyFile e absPath (filepath_Join e [trashDir, filepath_Base e absPath]) w1))
       = Some (None, w2)"
    and removal_fails:
      "sys e (if IsDir sourceInfo then RemoveAll absPath else Remove absPath) w2 = (Some err, w3)"
    and failure: "failure = Errorf (if IsDir sourceInfo then ''failed to remove original directory %s: %w''
                                    else ''failed to remove original file %s: %w'') [S absPath, V err]"
  shows "MoveToTrash e fuel sourcePath trashDir w = Some (Inl failure, w3) \<and>
         rootCmd_step e fuel verbose trashDir sourcePath (acc, w) =
           Some (acc\<lparr>failedPaths := failedPaths acc @ [sourcePath]\<rparr>,
                 Eprintf ''Error: %v\<newline>'' [V failure] w3)"
proof -
  have "MoveToTrash e fuel sourcePath trashDir w = Some (Inl failure, w3)"
  proof (cases "IsDir sourceInfo")
    case True
    with assms show ?thesis by (simp add: MoveToTrash_def Let_def)
  next
    case False
    with assms show ?thesis by (simp add: MoveToTrash_def Let_def)
  qed
  with rootCmd_step_failure[OF this] show ?thesis by simp
qed

theorem MoveToTrash_failed_removal_is_an_error_witness:
  "MoveToTrash (mem_env [Rename ''/w/a.txt'' ''/h/.config/trash/20251217_010006/a.txt'', Remove ''/w/a.txt''])
     0 ''a.txt'' ''/h/.config/trash/20251217_010006''
     (snd (CreateTrashTimestampDir (mem_env []) work_dir))
   = Some (Inl (Errorf ''failed to remove original file %s: %w'' [S ''/w/a.txt'', V ErrPermission]),
           \<lparr>fs = [(''/'', Directory 493), (''/h'', Directory 493), (''/h/.config'', Directory 493),
                  (''/h/.config/trash'', Directory 493), (''/w'', Directory 493),
                  (''/w/a.txt'', File ''hello'' 420), (''/w/d'', Directory 493),
                  (''/w/d/b.txt'', File ''bye'' 420),
                  (''/h/.config/trash/20251217_010006'', Directory 493),
                  (''/h/.config/trash/20251217_010006/a.txt'', File ''hello'' 420)],
             calls = [MkdirAll ''/h/.config/trash/20251217_010006'' 493,
                      Rename ''/w/a.txt'' ''/h/.config/trash/20251217_010006/a.txt'',
                      Create ''/h/.config/trash/20251217_010006/a.txt'',
                      ReadFrom ''/h/.config/trash/20251217_010006/a.txt'' ''/w/a.txt'',
                      Chmod ''/h/.config/trash/20251217_010006/a.txt'' 420,
                      Remove ''/w/a.txt''],
             out = []\<rparr>)"
proof -
  let ?e = "mem_env [Rename ''/w/a.txt'' ''/h/.config/trash/20251217_010006/a.txt'', Remove ''/w/a.txt'']"
  let ?t = "''/h/.config/trash/20251217_010006''"
  let ?d = "''/h/.config/trash/20251217_010006/a.txt''"
  define w where "w = snd (CreateTrashTimestampDir (mem_env []) work_dir)"
  define w1 where "w1 = snd (sys ?e (Rename ''/w/a.txt'' ?d) w)"
  define w2 where "w2 = snd (CopyFile ?e ''/w/a.txt'' ?d w1)"
  define w3 where "w3 = snd (sys ?e (Remove ''/w/a.txt'') w2)"
  have abs: "filepath_Abs ?e (fs w) ''a.txt'' = Inr ''/w/a.txt''"
    unfolding w_def by code_simp
  have info: "os_Stat ?e (fs w) ''/w/a.txt'' = Inr \<lparr>IsDir = False, Mode = 420\<rparr>"
    unfolding w_def by code_simp
  have rename_fails:
    "sys ?e (Rename ''/w/a.txt'' (filepath_Join ?e [?t, filepath_Base ?e ''/w/a.txt''])) w
       = (Some ErrCrossDevice, w1)"
    unfolding w1_def w_def by code_simp
  have copy_succeeds:
    "(if IsDir \<lparr>IsDir = False, Mode = 420\<rparr>
      then CopyDir ?e 0 ''/w/a.txt'' (filepath_Join ?e [?t, filepath_Base ?e ''/w/a.txt'']) w1
      else Some (CopyFile ?e ''/w/a.txt'' (filepath_Join ?e [?t, filepath_Base ?e ''/w/a.txt'']) w1))
     = Some (None, w2)"
    unfolding w2_def w1_def w_def by code_simp
  have removal_fails:
    "sys ?e (if IsDir \<lparr>IsDir = False, Mode = 420\<rparr> then RemoveAll ''/w/a.txt'' else Remove ''/w/a.txt'') w2
       = (Some ErrPermission, w3)"
    unfolding w3_def w2_def w1_def w_def by code_simp
  have w3: "w3 = \<lparr>fs = [(''/'', Directory 493), (''/h'', Directory 493), (''/h/.config'', Directory 493),
                  (''/h/.config/trash'', Directory 493), (''/w'', Directory 493),
                  (''/w/a.txt'', File ''hello'' 420), (''/w/d'', Directory 493),
                  (''/w/d/b.txt'', File ''bye'' 420),
                  (''/h/.config/trash/20251217_010006'', Directory 493),
                  (''/h/.config/trash/20251217_010006/a.txt'', File ''hello'' 420)],
             calls = [MkdirAll ''/h/.config/trash/20251217_010006'' 493,
                      Rename ''/w/a.txt'' ''/h/.config/trash/20251217_010006/a.txt'',
                      Create ''/h/.config/trash/20251217_010006/a.txt'',
                      ReadFrom ''/h/.config/trash/20251217_010006/a.txt'' ''/w/a.txt'',
                      Chmod ''/h/.config/trash/20251217_010006/a.txt'' 420,
                      Remove ''/w/a.txt''],
             out = []\<rparr>"
    unfolding w3_def w2_def w1_def w_def by code_simp
  from MoveToTrash_failed_removal_is_an_error[OF abs info rename_fails copy_succeeds removal_fails refl,
      of False "\<lparr>successCount = 0, failedPaths = [], metadata_Items = []\<rparr>"]
  show ?thesis unfolding w3 w_def by simp
qed

text \<open>
  The claim as stated fails on \<^verbatim>\<open>trash a.txt\<close> in the working directory when the rename
  meets the cross-device error and the removal of \<^verbatim>\<open>/w/a.txt\<close> is refused: the copy is
  made, \<open>MoveToTrash\<close> returns the error and no name, and the run reports one failure,
  no success, and exits with code 1.
\<close>

theorem failed_removal_counterexample:
  "map_option fst
     (MoveToTrash (mem_env [Rename ''/w/a.txt'' ''/h/.config/trash/20251217_010006/a.txt'', Remove ''/w/a.txt''])
        0 ''a.txt'' ''/h/.config/trash/20251217_010006''
        (snd (CreateTrashTimestampDir (mem_env []) work_dir)))
   = Some (Inl (Errorf ''failed to remove original file %s: %w'' [S ''/w/a.txt'', V ErrPermission])) \<and>
   map_option (\<lambda>(code, w). (code, calls w, out w))
     (rootCmd (mem_env [Rename ''/w/a.txt'' ''/h/.config/trash/20251217_010006/a.txt'', Remove ''/w/a.txt''])
        0 False [''a.txt''] work_dir)
   = Some (1,
           [MkdirAll ''/h/.config/trash/20251217_010006'' 493,
            Rename ''/w/a.txt'' ''/h/.config/trash/20251217_010006/a.txt'',
            Create ''/h/.config/trash/20251217_010006/a.txt'',
            ReadFrom ''/h/.config/trash/20251217_010006/a.txt'' ''/w/a.txt'',
            Chmod ''/h/.config/trash/20251217_010006/a.txt'' 420,
            Remove ''/w/a.txt''],
           [(Stderr, ''Error: %v\<newline>'',
               [V (Errorf ''failed to remove original file %s: %w'' [S ''/w/a.txt'', V ErrPermission])]),
            (Stderr, ''Failed to trash %d item(s)\<newline>'', [D 1])])"
  by code_simp

subsection \<open>Printing changes neither the file system nor the calls\<close>

lemma Printf_keeps:
  "fs (Printf format args w) = fs w" "calls (Printf format args w) = calls w"
  "out (Printf format args w) = out w @ [(Stdout, format, args)]"
  by (simp_all add: Printf_def)

lemma Eprintf_keeps:
  "fs (Eprintf format args w) = fs w" "calls (Eprintf format args w) = calls w"
  "out (Eprintf format args w) = out w @ [(Stderr, format, args)]"
  by (simp_all add: Eprintf_def)


lemma when_verbose_Printf_keeps:
  "fs (when_verbose verbose (Printf format args) w) = fs w"
  "calls (when_verbose verbose (Printf format args) w) = calls w"
  by (simp_all add: when_verbose_def Printf_keeps)




subsection \<open>The listing of all matches\<close>




subsection \<open>The metadata update after a restore\<close>

lemma follows_printed:
  "follows e w cs (Printf format args w1) = follows e w cs w1"
  "follows e w cs (Eprintf format args w1) = follows e w cs w1"
  "follows e w cs (when_verbose verbose (Printf format args) w1) = follows e w cs w1"
  by (simp_all add: follows_def Printf_keeps Eprintf_keeps when_verbose_Printf_keeps)

lemma follows_from_printed:
  "follows e (Printf format args w) cs w1 = follows e w cs w1"
  "follows e (Eprintf format args w) cs w1 = follows e w cs w1"
  "follows e (when_verbose verbose (Printf format args) w) cs w1 = follows e w cs w1"
  by (simp_all add: follows_def Printf_keeps Eprintf_keeps when_verbose_Printf_keeps)

lemma restore_update_metadata_removes:
  assumes "updatedItems itemName (reread_metadata e (fs w) trashDir) = []"
  shows "\<exists>w'. restore_update_metadata e verbose itemName timestamp trashDir destPath w = (0, w') \<and>
              follows e w [RemoveAll trashDir] w'"
proof -
  obtain err w1 where rm: "sys e (RemoveAll trashDir) w = (err, w1)" by force
  note f = follows_sys[OF rm]
  from assms rm f show ?thesis
    by (cases err) (simp_all add: restore_update_metadata_def Let_def follows_printed)
qed



text \<open>
  Claim C10. The metadata update reads the sidecar again and drops the errors of reading
  and of decoding: it always runs to its end with exit code 0. When the read fails (no
  data is left, and the decoder makes no item of no data) or the decoded record holds no
  item, no item remains, and the one call of the update is \<^verbatim>\<open>os.RemoveAll\<close> on the batch
  directory, which removes it with all that is in it.
\<close>

theorem unreadable_sidecar_removes_batch:
  assumes "(\<exists>err. os_ReadFile e (fs w) (filepath_Join e [trashDir, ''.restore'']) = Inl err) \<and>
             Items (snd (json_Unmarshal e [])) = []
           \<or> Items (reread_metadata e (fs w) trashDir) = []"
  shows "updatedItems itemName (reread_metadata e (fs w) trashDir) = [] \<and>
         (\<exists>w'. restore_update_metadata e verbose itemName timestamp trashDir destPath w = (0, w') \<and>
               follows e w [RemoveAll trashDir] w')"
proof -
  from assms have "Items (reread_metadata e (fs w) trashDir) = []"
    by (auto simp: reread_metadata_def Let_def)
  then have none: "updatedItems itemName (reread_metadata e (fs w) trashDir) = []"
    by (simp add: updatedItems_def)
  with restore_update_metadata_removes[OF none] show ?thesis by blast
qed

theorem unreadable_sidecar_removes_batch_witness:
  "os_ReadFile (mem_env [])
     (fs (snd (sys (mem_env []) (Rename ''/h/.config/trash/20251217_010006/.restore'' ''/w/.restore'')
                 dot_restore_batch)))
     ''/h/.config/trash/20251217_010006/.restore'' = Inl ErrNotExist \<and>
   map_option (\<lambda>(code, w). (code, calls w, os_Stat (mem_env []) (fs w) ''/h/.config/trash/20251217_010006/other.txt''))
     (restoreCmd (mem_env []) 0 ''.restore'' [] False False False dot_restore_batch)
   = Some (0, [MkdirAll ''/w'' 493,
               Rename ''/h/.config/trash/20251217_010006/.restore'' ''/w/.restore'',
               RemoveAll ''/h/.config/trash/20251217_010006''],
           Inl ErrNotExist) \<and>
   (\<exists>w'. restore_update_metadata (mem_env []) False ''.restore'' ''20251217_010006''
            ''/h/.config/trash/20251217_010006'' ''/w/.restore''
            (snd (sys (mem_env []) (Rename ''/h/.config/trash/20251217_010006/.restore'' ''/w/.restore'')
                 dot_restore_batch)) = (0, w') \<and>
         calls w' = [Rename ''/h/.config/trash/20251217_010006/.restore'' ''/w/.restore'',
                     RemoveAll ''/h/.config/trash/20251217_010006''])"
proof -
  let ?e = "mem_env []"
  let ?t = "''/h/.config/trash/20251217_010006''"
  define wt where "wt = snd (sys ?e (Rename ''/h/.config/trash/20251217_010006/.restore'' ''/w/.restore'')
                 dot_restore_batch)"
  have unreadable: "os_ReadFile ?e (fs wt) ''/h/.config/trash/20251217_010006/.restore'' = Inl ErrNotExist"
    unfolding wt_def by code_simp
  have join: "filepath_Join ?e [?t, ''.restore''] = ''/h/.config/trash/20251217_010006/.restore''"
    by code_simp
  have no_data: "Items (snd (json_Unmarshal ?e [])) = []"
    by code_simp
  have before: "calls wt = [Rename ''/h/.config/trash/20251217_010006/.restore'' ''/w/.restore'']"
    unfolding wt_def by code_simp
  have whole: "map_option (\<lambda>(code, w). (code, calls w, os_Stat ?e (fs w) ''/h/.config/trash/20251217_010006/other.txt''))
     (restoreCmd ?e 0 ''.restore'' [] False False False dot_restore_batch)
   = Some (0, [MkdirAll ''/w'' 493,
               Rename ''/h/.config/trash/20251217_010006/.restore'' ''/w/.restore'',
               RemoveAll ''/h/.config/trash/20251217_010006''],
           Inl ErrNotExist)"
    by code_simp
  have "(\<exists>err. os_ReadFile ?e (fs wt) (filepath_Join ?e [?t, ''.restore'']) = Inl err) \<and>
             Items (snd (json_Unmarshal ?e [])) = []
           \<or> Items (reread_metadata ?e (fs wt) ?t) = []"
    using unreadable no_data unfolding join by blast
  from unreadable_sidecar_removes_batch[OF this, of "''.restore''" False "''20251217_010006''" "''/w/.restore''"]
    before
  have "\<exists>w'. restore_update_metadata ?e False ''.restore'' ''20251217_010006'' ?t ''/w/.restore'' wt = (0, w') \<and>
         calls w' = [Rename ''/h/.config/trash/20251217_010006/.restore'' ''/w/.restore'',
                     RemoveAll ''/h/.config/trash/20251217_010006'']"
    by (auto simp: follows_def)
  with unreadable whole show ?thesis unfolding wt_def by blast
qed

subsection \<open>The calls of a restore, in order\<close>










text \<open>
  Claim C9. With \<^verbatim>\<open>--force\<close>, a destination that exists and is removed, a parent directory
  that is made, a rename that fails and a source that \<^verbatim>\<open>os.Stat\<close> does not find: the run
  ends with exit code 1 and the error of the source, after the three calls. The state it
  leaves is the one these calls made: the removal of the destination has been carried
  out and is not undone.
\<close>

theorem forced_restore_of_absent_item_removes_destination:
  assumes src: "sourcePath = filepath_Join e [TrashDirPath match, itemName]"
    and dst: "destPath = OriginalPath (Item match)"
    and occupied: "os_Stat e (fs w) destPath = Inr info"
    and removed: "sys e (RemoveAll destPath)
                    (when_verbose verbose
                       (Printf ''Overwriting existing file/directory: %s\<newline>'' [S destPath]) w) = (None, w1)"
    and parent: "sys e (MkdirAll (filepath_Dir e destPath) perm_0755) w1 = (None, w2)"
    and rename_fails: "sys e (Rename sourcePath destPath) w2 = (Some err, w3)"
    and absent: "os_Stat e (fs w3) sourcePath = Inl err'"
  shows "restore_match e fuel verbose True itemName match w =
           Some (1, Eprintf ''Error accessing source: %v\<newline>'' [V err'] w3) \<and>
         follows e w [RemoveAll destPath, MkdirAll (filepath_Dir e destPath) perm_0755,
                      Rename sourcePath destPath] w3"
proof -
  have "restore_match e fuel verbose True itemName match w =
           Some (1, Eprintf ''Error accessing source: %v\<newline>'' [V err'] w3)"
    using assms
    by (simp add: restore_match_def restore_into_parent_def restore_transfer_def Let_def)
  moreover from follows_sys[OF removed] have "follows e w [RemoveAll destPath] w1"
    by (simp add: follows_from_printed)
  from follows_append[OF follows_append[OF this follows_sys[OF parent]] follows_sys[OF rename_fails]]
  have "follows e w [RemoveAll destPath, MkdirAll (filepath_Dir e destPath) perm_0755,
                      Rename sourcePath destPath] w3"
    by simp
  ultimately show ?thesis by blast
qed

theorem forced_restore_of_absent_item_removes_destination_witness:
  "os_Stat (mem_env []) (fs stale_batch) ''/w/a.txt'' = Inr \<lparr>IsDir = False, Mode = 420\<rparr> \<and>
   map_option (\<lambda>(code, w). (code, calls w, out w, os_Stat (mem_env []) (fs w) ''/w/a.txt''))
     (restore_match (mem_env []) 0 False True ''a.txt''
            \<lparr>Timestamp = ''20251217_010006'',
              Item = \<lparr>Name = ''a.txt'', OriginalPath = ''/w/a.txt'', TrashedAt = ''2025-12-17T01:00:06Z''\<rparr>,
              TrashDirPath = ''/h/.config/trash/20251217_010006''\<rparr>
            stale_batch)
   = Some (1, [RemoveAll ''/w/a.txt'', MkdirAll ''/w'' 493,
               Rename ''/h/.config/trash/20251217_010006/a.txt'' ''/w/a.txt''],
           [(Stderr, ''Error accessing source: %v\<newline>'', [V ErrNotExist])],
           Inl ErrNotExist)"
proof -
  let ?e = "mem_env []"
  let ?m = "\<lparr>Timestamp = ''20251217_010006'',
              Item = \<lparr>Name = ''a.txt'', OriginalPath = ''/w/a.txt'', TrashedAt = ''2025-12-17T01:00:06Z''\<rparr>,
              TrashDirPath = ''/h/.config/trash/20251217_010006''\<rparr>"
  let ?src = "''/h/.config/trash/20251217_010006/a.txt''"
  define w1 where "w1 = snd (sys ?e (RemoveAll ''/w/a.txt'')
                    (when_verbose False
                       (Printf ''Overwriting existing file/directory: %s\<newline>'' [S ''/w/a.txt'']) stale_batch))"
  define w2 where "w2 = snd (sys ?e (MkdirAll (filepath_Dir ?e ''/w/a.txt'') perm_0755) w1)"
  define w3 where "w3 = snd (sys ?e (Rename ?src ''/w/a.txt'') w2)"
  have src: "?src = filepath_Join ?e [TrashDirPath ?m, ''a.txt'']"
    by code_simp
  have dst: "''/w/a.txt'' = OriginalPath (Item ?m)"
    by simp
  have occupied: "os_Stat ?e (fs stale_batch) ''/w/a.txt'' = Inr \<lparr>IsDir = False, Mode = 420\<rparr>"
    by code_simp
  have removed: "sys ?e (RemoveAll ''/w/a.txt'')
                    (when_verbose False
                       (Printf ''Overwriting existing file/directory: %s\<newline>'' [S ''/w/a.txt'']) stale_batch)
                 = (None, w1)"
    unfolding w1_def by code_simp
  have parent: "sys ?e (MkdirAll (filepath_Dir ?e ''/w/a.txt'') perm_0755) w1 = (None, w2)"
    unfolding w2_def w1_def by code_simp
  have rename_fails: "sys ?e (Rename ?src ''/w/a.txt'') w2 = (Some ErrNotExist, w3)"
    unfolding w3_def w2_def w1_def by code_simp
  have absent: "os_Stat ?e (fs w3) ?src = Inl ErrNotExist"
    unfolding w3_def w2_def w1_def by code_simp
  have gone: "os_Stat ?e (fs w3) ''/w/a.txt'' = Inl ErrNotExist"
    unfolding w3_def w2_def w1_def by code_simp
  have quiet: "out w3 = []"
    unfolding w3_def w2_def w1_def by code_simp
  have start: "calls stale_batch = []"
    by code_simp
  have dir: "filepath_Dir ?e ''/w/a.txt'' = ''/w''" and perm: "perm_0755 = 493"
    by code_simp+
  from forced_restore_of_absent_item_removes_destination[OF src dst occupied removed parent rename_fails absent,
      of 0]
  have "restore_match ?e 0 False True ''a.txt'' ?m stale_batch =
          Some (1, Eprintf ''Error accessing source: %v\<newline>'' [V ErrNotExist] w3)"
    and "calls w3 = calls stale_batch @ [RemoveAll ''/w/a.txt'', MkdirAll (filepath_Dir ?e ''/w/a.txt'') perm_0755,
                               Rename ?src ''/w/a.txt'']"
    by (simp_all add: follows_def)
  with gone quiet start dir perm occupied show ?thesis
    by (simp add: Eprintf_keeps)
qed

subsection \<open>Saving a sidecar and loading it again\<close>

text \<open>
  The sidecar is written by \<open>SaveRestoreMetadata\<close> and loaded by lines 71-88 of restore.go
  (\<open>batch_items\<close>; lines 51-77 of list.go load it in the same way). Both use the path
  \<^verbatim>\<open>.restore\<close> in the batch directory and hand the bytes on as they are. So, on a file
  system that returns on reading what was last written to a path, loading after a
  successful save decodes exactly the bytes that the encoder made of the metadata: the
  items come back as they were whenever the decoder inverts the encoder on them.
\<close>

lemma load_after_save_decodes_what_was_encoded:
  assumes save: "SaveRestoreMetadata e (filepath_Join e [configDir, dirName]) metadata w = (None, w')"
    and read_back: "\<forall>path data perm s s'. os_exec e (WriteFile path data perm) s = (None, s') \<longrightarrow>
                      os_ReadFile e s' path = Inr data \<and> (\<exists>info. os_Stat e s' path = Inr info)"
  shows "\<exists>jsonData. json_MarshalIndent e metadata = Inr jsonData \<and>
           batch_items e (fs w') configDir dirName =
             (case json_Unmarshal e jsonData of
                (None, loaded) \<Rightarrow> Items loaded
              | (Some err, loaded) \<Rightarrow> [])"
proof -
  let ?file = "filepath_Join e [filepath_Join e [configDir, dirName], ''.restore'']"
  from save obtain jsonData where enc: "json_MarshalIndent e metadata = Inr jsonData"
    by (cases "json_MarshalIndent e metadata") (simp_all add: SaveRestoreMetadata_def Let_def)
  obtain r1 w1 where wr: "sys e (WriteFile ?file jsonData perm_0644) w = (r1, w1)" by force
  with save enc have "r1 = None" and "w' = w1"
    by (cases r1; simp add: SaveRestoreMetadata_def Let_def)+
  with sys_effect(3,4)[OF wr]
  have "os_exec e (WriteFile ?file jsonData perm_0644) (fs w) = (None, fs w')"
    by (metis prod.collapse)
  with read_back have "os_ReadFile e (fs w') ?file = Inr jsonData"
    and "\<exists>info. os_Stat e (fs w') ?file = Inr info"
    by blast+
  then have "batch_items e (fs w') configDir dirName =
             (case json_Unmarshal e jsonData of
                (None, loaded) \<Rightarrow> Items loaded
              | (Some err, loaded) \<Rightarrow> [])"
    by (auto simp: batch_items_def Let_def split: prod.splits option.splits)
  with enc show ?thesis by blast
qed

lemma map_of_put: "map_of (put p n s) p = Some n"
proof (cases "map_of s p")
  case None
  then show ?thesis by (simp add: put_def map_add_def)
next
  case (Some m)
  have "map_of s p \<noteq> None \<Longrightarrow>
          map_of (map (\<lambda>(q, m). if q = p then (q, n) else (q, m)) s) p = Some n"
    by (induction s) (auto split: if_splits)
  with Some show ?thesis by (simp add: put_def)
qed

lemma mem_read_back:
  assumes "mem_exec (WriteFile path data perm) s = (None, s')"
  shows "mem_ReadFile s' path = Inr data \<and> (\<exists>info. mem_Stat s' path = Inr info)"
proof -
  from assms have "\<exists>m. s' = put path (File data m) s"
    by (auto split: if_splits option.splits node.splits)
  then show ?thesis
    by (auto simp: mem_ReadFile_def mem_Stat_def map_of_put)
qed

lemma load_after_save_decodes_what_was_encoded_example:
  "batch_items (mem_env [])
     (fs (snd (SaveRestoreMetadata (mem_env []) (filepath_Join (mem_env []) [''/h/.config/trash'', ''20260101_000000''])
                 \<lparr>Items = [\<lparr>Name = ''c.txt'', OriginalPath = ''/w/c.txt'', TrashedAt = ''2026-01-01T00:00:00Z''\<rparr>]\<rparr>
                 two_batches)))
     ''/h/.config/trash'' ''20260101_000000''
   = [\<lparr>Name = ''c.txt'', OriginalPath = ''/w/c.txt'', TrashedAt = ''2026-01-01T00:00:00Z''\<rparr>]"
proof -
  let ?e = "mem_env []"
  let ?md = "\<lparr>Items = [\<lparr>Name = ''c.txt'', OriginalPath = ''/w/c.txt'', TrashedAt = ''2026-01-01T00:00:00Z''\<rparr>]\<rparr>"
  define w' where "w' = snd (SaveRestoreMetadata ?e (filepath_Join ?e [''/h/.config/trash'', ''20260101_000000'']) ?md
                 two_batches)"
  have save: "SaveRestoreMetadata ?e (filepath_Join ?e [''/h/.config/trash'', ''20260101_000000'']) ?md two_batches
                = (None, w')"
    unfolding w'_def by code_simp
  have read_back: "\<forall>path data perm s s'. os_exec ?e (WriteFile path data perm) s = (None, s') \<longrightarrow>
                      os_ReadFile ?e s' path = Inr data \<and> (\<exists>info. os_Stat ?e s' path = Inr info)"
    using mem_read_back by (simp add: mem_env_def)
  have enc: "json_MarshalIndent ?e ?md = Inr ''items\<newline>c.txt|/w/c.txt|2026-01-01T00:00:00Z\<newline>''"
    by code_simp
  have dec: "json_Unmarshal ?e ''items\<newline>c.txt|/w/c.txt|2026-01-01T00:00:00Z\<newline>'' = (None, ?md)"
    by code_simp
  from load_after_save_decodes_what_was_encoded[OF save read_back] enc dec
  show ?thesis unfolding w'_def by simp
qed

subsection \<open>The exit code of the trash command\<close>

text \<open>
  Once the batch directory is made, a run of the trash command over a non-empty list of
  paths that ends has counted every path either as a success or as a failure, and its
  exit code is 1 exactly when some path failed.
\<close>

lemma trash_exit_code_tells_failures:
  assumes paths: "args \<noteq> []"
    and created: "CreateTrashTimestampDir e w = (Inr trashDir, w1)"
    and run: "rootCmd e fuel verbose args w = Some (code, w')"
  shows "\<exists>acc wl.
           rootCmd_loop e fuel verbose trashDir args
             (\<lparr>successCount = 0, failedPaths = [], metadata_Items = []\<rparr>,
              when_verbose verbose (Printf ''Created trash directory: %s\<newline>'' [S trashDir]) w1)
           = Some (acc, wl) \<and>
           successCount acc + length (failedPaths acc) = length args \<and>
           code = (if failedPaths acc = [] then 0 else 1)"
proof -
  let ?st0 = "(\<lparr>successCount = 0, failedPaths = [], metadata_Items = []\<rparr>,
               when_verbose verbose (Printf ''Created trash directory: %s\<newline>'' [S trashDir]) w1)"
  from paths created run obtain acc wl
    where loop: "rootCmd_loop e fuel verbose trashDir args ?st0 = Some (acc, wl)"
    by (cases "rootCmd_loop e fuel verbose trashDir args ?st0")
       (auto simp: rootCmd_def Let_def)
  from rootCmd_loop_counts[OF loop]
  have count: "successCount acc + length (failedPaths acc) = length args" by simp
  from paths created run loop have "code = (if failedPaths acc = [] then 0 else 1)"
    by (auto simp: rootCmd_def Let_def split: if_splits)
  with loop count show ?thesis by blast
qed

lemma trash_exit_code_tells_failures_example:
  "map_option fst (rootCmd (mem_env []) 0 False [''a.txt'', ''nope'', ''d''] work_dir) = Some 1 \<and>
   map_option fst (rootCmd (mem_env []) 0 False [''a.txt'', ''d''] work_dir) = Some 0"
proof -
  let ?e = "mem_env []"
  let ?t = "''/h/.config/trash/20251217_010006''"
  define w1 where "w1 = snd (CreateTrashTimestampDir ?e work_dir)"
  define r where "r = the (rootCmd ?e 0 False [''a.txt'', ''nope'', ''d''] work_dir)"
  have paths: "[''a.txt'', ''nope'', ''d''] \<noteq> []" by simp
  have created: "CreateTrashTimestampDir ?e work_dir = (Inr ?t, w1)"
    unfolding w1_def by code_simp
  have run: "rootCmd ?e 0 False [''a.txt'', ''nope'', ''d''] work_dir = Some (fst r, snd r)"
    unfolding r_def by code_simp
  have failed: "failedPaths (fst (the (rootCmd_loop ?e 0 False ?t [''a.txt'', ''nope'', ''d'']
             (\<lparr>successCount = 0, failedPaths = [], metadata_Items = []\<rparr>,
              when_verbose False (Printf ''Created trash directory: %s\<newline>'' [S ?t]) w1)))) \<noteq> []"
    unfolding w1_def by code_simp
  from trash_exit_code_tells_failures[OF paths created run] failed
  have "fst r = 1" by auto
  with run have first: "map_option fst (rootCmd ?e 0 False [''a.txt'', ''nope'', ''d''] work_dir) = Some 1"
    by simp
  have second: "map_option fst (rootCmd ?e 0 False [''a.txt'', ''d''] work_dir) = Some 0"
    by code_simp
  from first second show ?thesis by blast
qed

end
